theory Spec2Isabelle
  imports Complex_Main
begin

section \<open>IDW interpolation of station data onto a grid (scripts/02_interpolar_clima_grid.py)\<close>

text \<open>
  The theory embeds section 4 of the script (lines 134 to 189): the construction of the
  spatial index, the batch loop, the validity filter, the fallback and the IDW weighting.
  Loading of files, reprojection and the serialisation of section 5 (including the rounding
  to two decimals) are outside the embedding.

  Numbers: Python integers are \<open>int\<close>. NumPy's float64 values are modelled by \<open>real\<close>,
  so every statement about estimates and weights is a statement of exact arithmetic; rounding
  error, NaN and overflow are not represented. The one non-finite value the script tests for,
  \<open>float('inf')\<close> in the distance rows of the query, is a constructor of its own.
\<close>

subsection \<open>Data\<close>

type_synonym point = "real \<times> real"

text \<open>A row of \<open>gdf_estacoes\<close>: the geometry and the column \<open>dry_season_length\<close>.\<close>

record station =
  geometry :: point
  dry_season_length :: real

text \<open>An entry of the \<open>dists\<close> array: a finite distance, or \<open>inf\<close> for a missing neighbour.\<close>

datatype dist = Fin real | PInf

text \<open>
  The exceptions the embedded lines can raise. \<open>ValueError\<close> is raised by SciPy (the
  constructor of \<open>cKDTree\<close> on an array that is not two-dimensional, \<open>query\<close> with
  \<open>k < 1\<close>), \<open>ZeroDivisionError\<close> by \<open>//\<close>, \<open>IndexError\<close> by fancy indexing out
  of range. \<open>EmptyInputError\<close> and \<open>InvalidConfigurationError\<close> are the names the
  specification uses; no line of the script raises them, and no definition below constructs
  them.
\<close>

datatype error =
  ValueError | ZeroDivisionError | IndexError | EmptyInputError | InvalidConfigurationError

text \<open>
  The parameters of lines 39 to 42 and 147. The script fixes them as module constants; the
  embedding takes them as a record so that statements can range over configurations.
\<close>

record config =
  POWER :: int
  MAX_DISTANCE_KM :: real
  MIN_NEIGHBORS :: int
  MAX_NEIGHBORS :: int
  batch_size :: int

definition script_config :: config where
  "script_config =
     \<lparr>POWER = 2, MAX_DISTANCE_KM = 300, MIN_NEIGHBORS = 3, MAX_NEIGHBORS = 15,
      batch_size = 50000\<rparr>"

subsection \<open>The spatial index (scipy.spatial.cKDTree)\<close>

text \<open>
  \<open>cKDTree\<close> is a library, not code of the repository. It is modelled by its documented
  contract, as an exhaustive search: \<open>query(x, k, distance_upper_bound = ub)\<close> returns for
  each point a row of exactly \<open>k\<close> entries, the nearest stations with Euclidean distance
  below \<open>ub\<close> in ascending order of distance, and the missing entries as distance
  \<open>inf\<close> with the index \<open>n\<close> (the number of stations). Stations at equal distance are
  taken in index order here; the library leaves that order open.
\<close>

definition euclid :: "point \<Rightarrow> point \<Rightarrow> real" where
  "euclid p q = sqrt ((fst p - fst q)\<^sup>2 + (snd p - snd q)\<^sup>2)"

definition candidates :: "point list \<Rightarrow> point \<Rightarrow> real \<Rightarrow> (real \<times> nat) list" where
  "candidates data x ub =
     filter (\<lambda>(d, i). d < ub) (map (\<lambda>(i, p). (euclid x p, i)) (enumerate 0 data))"

definition tree_query :: "point list \<Rightarrow> point \<Rightarrow> nat \<Rightarrow> real \<Rightarrow> (dist \<times> nat) list" where
  "tree_query data x k ub =
     (let hits = take k (sort_key fst (candidates data x ub))
      in map (\<lambda>(d, i). (Fin d, i)) hits @ replicate (k - length hits) (PInf, length data))"

text \<open>The batched call of line 160: one row per point of the batch; \<open>k < 1\<close> is rejected.\<close>

definition tree_query_batch ::
  "point list \<Rightarrow> point list \<Rightarrow> int \<Rightarrow> real \<Rightarrow> error + (dist \<times> nat) list list" where
  "tree_query_batch data batch_coords k ub =
     (if k < 1 then Inl ValueError
      else Inr (map (\<lambda>x. tree_query data x (nat k) ub) batch_coords))"

subsection \<open>One grid point (lines 166 to 184)\<close>

text \<open>
  Lines 167 to 169: \<open>valid = dists[j] != inf\<close>, \<open>d = dists[j][valid]\<close>,
  \<open>ix = idxs[j][valid]\<close>. The two parallel rows are kept as one list of pairs.
\<close>

fun valid_neighbors :: "(dist \<times> nat) list \<Rightarrow> (real \<times> nat) list" where
  "valid_neighbors [] = []"
| "valid_neighbors ((Fin r, i) # row) = (r, i) # valid_neighbors row"
| "valid_neighbors ((PInf, i) # row) = valid_neighbors row"

definition eps :: real where
  "eps = 1 / 10 ^ 12"

text \<open>\<open>np.mean\<close> and \<open>np.dot\<close> on one-dimensional arrays.\<close>

definition mean :: "real list \<Rightarrow> real" where
  "mean xs = sum_list xs / real (length xs)"

definition dot :: "real list \<Rightarrow> real list \<Rightarrow> real" where
  "dot xs ys = sum_list (map (\<lambda>(x, y). x * y) (zip xs ys))"

text \<open>Line 178: \<open>w = 1.0 / (d + 1e-12)**POWER\<close>.\<close>

definition raw_weights :: "int \<Rightarrow> real list \<Rightarrow> real list" where
  "raw_weights p d = map (\<lambda>x. 1 / (x + eps) powi p) d"

text \<open>Lines 178 and 179: the weights after \<open>w /= w.sum()\<close>.\<close>

definition idw_weights :: "int \<Rightarrow> real list \<Rightarrow> real list" where
  "idw_weights p d = (let w = raw_weights p d in map (\<lambda>x. x / sum_list w) w)"

text \<open>\<open>valores_estacoes[ix]\<close>: fancy indexing raises on an index out of range.\<close>

definition gather :: "real list \<Rightarrow> nat list \<Rightarrow> error + real list" where
  "gather vals ix =
     (if list_all (\<lambda>i. i < length vals) ix then Inr (map (\<lambda>i. vals ! i) ix)
      else Inl IndexError)"

definition interp_point :: "config \<Rightarrow> real list \<Rightarrow> (dist \<times> nat) list \<Rightarrow> error + real \<times> int" where
  "interp_point cfg valores_estacoes row =
     (let nb = valid_neighbors row; d = map fst nb; ix = map snd nb
      in if int (length d) < MIN_NEIGHBORS cfg then Inr (mean valores_estacoes, 0)
         else (case gather valores_estacoes ix of
                 Inl e \<Rightarrow> Inl e
               | Inr vs \<Rightarrow> Inr (dot (idw_weights (POWER cfg) d) vs, int (length d))))"

text \<open>The inner loop of lines 165 to 184, collecting \<open>batch_vals\<close> and \<open>batch_neighs\<close>.\<close>

fun interp_rows ::
  "config \<Rightarrow> real list \<Rightarrow> (dist \<times> nat) list list \<Rightarrow> error + real list \<times> int list" where
  "interp_rows cfg vals [] = Inr ([], [])"
| "interp_rows cfg vals (row # rows) =
     (case interp_point cfg vals row of
        Inl e \<Rightarrow> Inl e
      | Inr (val, n) \<Rightarrow>
          (case interp_rows cfg vals rows of
             Inl e \<Rightarrow> Inl e
           | Inr (batch_vals, batch_neighs) \<Rightarrow> Inr (val # batch_vals, n # batch_neighs)))"

subsection \<open>The batch loop (lines 143 to 187)\<close>

text \<open>
  \<open>a[start:end]\<close> and \<open>a[start:end] = vals\<close>. Both are reached only behind the test
  \<open>start >= end\<close> of line 155, where \<open>0 \<le> start < end \<le> len(a)\<close> and \<open>vals\<close> has
  \<open>end - start\<close> elements.
\<close>

definition slice :: "'a list \<Rightarrow> int \<Rightarrow> int \<Rightarrow> 'a list" where
  "slice xs start end = take (nat end - nat start) (drop (nat start) xs)"

definition assign_slice :: "'a list \<Rightarrow> int \<Rightarrow> int \<Rightarrow> 'a list \<Rightarrow> 'a list" where
  "assign_slice xs start end vals = take (nat start) xs @ vals @ drop (nat end) xs"

text \<open>
  The loop \<open>for i in range(num_batches)\<close> over the list of its indices; the second
  equation returns the buffers unchanged at the \<open>break\<close> of line 155.
\<close>

fun batch_loop ::
  "config \<Rightarrow> point list \<Rightarrow> real list \<Rightarrow> point list \<Rightarrow> int list \<Rightarrow>
   real list \<times> int list \<Rightarrow> error + real list \<times> int list" where
  "batch_loop cfg coords_estacoes valores_estacoes coords_grid [] bufs = Inr bufs"
| "batch_loop cfg coords_estacoes valores_estacoes coords_grid (i # rest)
     (resultados, vizinhos_count) =
     (let start = i * batch_size cfg;
          end = min ((i + 1) * batch_size cfg) (int (length coords_grid))
      in if start \<ge> end then Inr (resultados, vizinhos_count)
         else
           (case tree_query_batch coords_estacoes (slice coords_grid start end)
                   (MAX_NEIGHBORS cfg) (MAX_DISTANCE_KM cfg * 1000) of
              Inl e \<Rightarrow> Inl e
            | Inr rows \<Rightarrow>
                (case interp_rows cfg valores_estacoes rows of
                   Inl e \<Rightarrow> Inl e
                 | Inr (batch_vals, batch_neighs) \<Rightarrow>
                     batch_loop cfg coords_estacoes valores_estacoes coords_grid rest
                       (assign_slice resultados start end batch_vals,
                        assign_slice vizinhos_count start end batch_neighs))))"

text \<open>
  Lines 135 to 187. \<open>cKDTree\<close> rejects the one-dimensional empty array that
  \<open>np.array([])\<close> is; \<open>//\<close> raises on a zero divisor; \<open>range\<close> of a number below one is
  empty. The result is the pair of buffers \<open>resultados\<close> and \<open>vizinhos_count\<close>.
\<close>

definition interpolate ::
  "config \<Rightarrow> station list \<Rightarrow> point list \<Rightarrow> error + real list \<times> int list" where
  "interpolate cfg gdf_estacoes coords_grid =
     (let coords_estacoes = map geometry gdf_estacoes;
          valores_estacoes = map dry_season_length gdf_estacoes
      in if coords_estacoes = [] then Inl ValueError
         else
           (let resultados = replicate (length coords_grid) 0;
                vizinhos_count = replicate (length coords_grid) 0
            in if batch_size cfg = 0 then Inl ZeroDivisionError
               else
                 (let num_batches = int (length coords_grid) div batch_size cfg + 1
                  in batch_loop cfg coords_estacoes valores_estacoes coords_grid
                       (map int [0..<nat num_batches]) (resultados, vizinhos_count))))"

text \<open>
  What the loop computes for one grid point \<open>x\<close>: its row of the query, filtered and
  weighted.
\<close>

definition neighbors_of :: "config \<Rightarrow> station list \<Rightarrow> point \<Rightarrow> (real \<times> nat) list" where
  "neighbors_of cfg gdf_estacoes x =
     valid_neighbors (tree_query (map geometry gdf_estacoes) x (nat (MAX_NEIGHBORS cfg))
        (MAX_DISTANCE_KM cfg * 1000))"

definition point_result :: "config \<Rightarrow> station list \<Rightarrow> point \<Rightarrow> real \<times> int" where
  "point_result cfg gdf_estacoes x =
     (let nb = neighbors_of cfg gdf_estacoes x; d = map fst nb; ix = map snd nb
      in if int (length d) < MIN_NEIGHBORS cfg
         then (mean (map dry_season_length gdf_estacoes), 0)
         else (dot (idw_weights (POWER cfg) d)
                 (map (\<lambda>i. dry_season_length (gdf_estacoes ! i)) ix), int (length d)))"

subsection \<open>The writes of the loop\<close>

text \<open>
  The control of the loop alone (lines 152 to 155): the slices \<open>[start, end)\<close> it
  reaches before it ends or breaks, and the slots of the buffers they cover, in the order of
  the writes of lines 186 and 187. \<open>write_batch\<close> is one pass of the body on one such
  slice, with the per-point results already computed.
\<close>

fun batch_slices :: "config \<Rightarrow> nat \<Rightarrow> int list \<Rightarrow> (int \<times> int) list" where
  "batch_slices cfg n [] = []"
| "batch_slices cfg n (i # rest) =
     (let start = i * batch_size cfg;
          end = min ((i + 1) * batch_size cfg) (int n)
      in if start \<ge> end then [] else (start, end) # batch_slices cfg n rest)"

definition written_slots :: "config \<Rightarrow> nat \<Rightarrow> nat list" where
  "written_slots cfg n =
     concat (map (\<lambda>(start, end). [nat start..<nat end])
       (batch_slices cfg n (map int [0..<nat (int n div batch_size cfg + 1)])))"

definition write_batch ::
  "config \<Rightarrow> station list \<Rightarrow> point list \<Rightarrow> real list \<times> int list \<Rightarrow> int \<times> int \<Rightarrow>
   real list \<times> int list" where
  "write_batch cfg gdf_estacoes coords_grid bufs se =
     (case bufs of (resultados, vizinhos_count) \<Rightarrow>
        (case se of (start, end) \<Rightarrow>
           (assign_slice resultados start end
              (map (fst \<circ> point_result cfg gdf_estacoes) (slice coords_grid start end)),
            assign_slice vizinhos_count start end
              (map (snd \<circ> point_result cfg gdf_estacoes) (slice coords_grid start end)))))"

subsection \<open>Lines 178 to 180 in float64\<close>

text \<open>
  The definitions above compute over the reals, so that an estimate is a formula in the
  distances and the values. NumPy computes in IEEE binary64: the result of every operation is
  rounded to the nearest number with a significand of 53 bits, a tie going to the even one.
  \<open>f64\<close> is this rounding for a value in the normal range (overflow and subnormal
  numbers are left out), and \<open>binary_exponent n x\<close> is the exponent \<open>e\<close>
  with \<open>2 ^ e \<le> x < 2 ^ (e + 1)\<close>, searched in at most \<open>n\<close> steps.
\<close>

fun binary_exponent :: "nat \<Rightarrow> real \<Rightarrow> int" where
  "binary_exponent 0 x = 0"
| "binary_exponent (Suc n) x =
     (if x < 1 then binary_exponent n (2 * x) - 1
      else if 2 \<le> x then binary_exponent n (x / 2) + 1
      else 0)"

definition round_half_even :: "real \<Rightarrow> int" where
  "round_half_even r =
     (let n = \<lfloor>r\<rfloor>; f = r - of_int n
      in if f < 1 / 2 then n else if 1 / 2 < f then n + 1 else if even n then n else n + 1)"

definition f64 :: "real \<Rightarrow> real" where
  "f64 x = (if x = 0 then 0
            else let e = binary_exponent 1100 \<bar>x\<bar> - 52
                 in of_int (round_half_even (x / 2 powi e)) * 2 powi e)"

text \<open>
  Lines 178 to 180 with one rounding for each operation: the literal \<open>1e-12\<close>, the
  weights, \<open>w.sum()\<close> and \<open>np.dot\<close>, both summed from left to right.
\<close>

definition eps64 :: real where
  "eps64 = f64 (1 / 10 ^ 12)"

definition raw_weights_f64 :: "int \<Rightarrow> real list \<Rightarrow> real list" where
  "raw_weights_f64 p d = map (\<lambda>x. f64 (1 / f64 (f64 (x + eps64) powi p))) d"

definition sum_f64 :: "real list \<Rightarrow> real" where
  "sum_f64 xs = foldl (\<lambda>s x. f64 (s + x)) 0 xs"

definition idw_weights_f64 :: "int \<Rightarrow> real list \<Rightarrow> real list" where
  "idw_weights_f64 p d = (let w = raw_weights_f64 p d; s = sum_f64 w in map (\<lambda>x. f64 (x / s)) w)"

definition dot_f64 :: "real list \<Rightarrow> real list \<Rightarrow> real" where
  "dot_f64 xs ys = foldl (\<lambda>s (x, y). f64 (s + f64 (x * y))) 0 (zip xs ys)"


section \<open>Properties\<close>

subsection \<open>The query rows and the per-point computation\<close>

lemma valid_neighbors_append:
  "valid_neighbors (xs @ ys) = valid_neighbors xs @ valid_neighbors ys"
  by (induction xs rule: valid_neighbors.induct) simp_all

lemma valid_neighbors_Fin: "valid_neighbors (map (\<lambda>(d, i). (Fin d, i)) hits) = hits"
  by (induction hits) auto

lemma valid_neighbors_PInf: "valid_neighbors (replicate m (PInf, n)) = []"
  by (induction m) simp_all

lemma valid_neighbors_tree_query:
  "valid_neighbors (tree_query data x k ub) = take k (sort_key fst (candidates data x ub))"
  by (simp add: tree_query_def Let_def valid_neighbors_append valid_neighbors_Fin
      valid_neighbors_PInf)

lemma in_candidates:
  "(d, i) \<in> set (candidates data x ub) \<longleftrightarrow> i < length data \<and> d = euclid x (data ! i) \<and> d < ub"
  by (auto simp: candidates_def in_set_enumerate_eq)

lemma set_hits_subset:
  "set (take k (sort_key fst (candidates data x ub))) \<subseteq> set (candidates data x ub)"
  using set_take_subset [of k "sort_key fst (candidates data x ub)"] by simp

lemma neighbors_index_bound:
  "(d, i) \<in> set (valid_neighbors (tree_query data x k ub)) \<Longrightarrow> i < length data"
  using set_hits_subset [of k data x ub] in_candidates [of d i data x ub]
  by (auto simp: valid_neighbors_tree_query)

lemma gather_ok:
  "\<forall>i \<in> set ix. i < length vals \<Longrightarrow> gather vals ix = Inr (map (\<lambda>i. vals ! i) ix)"
  by (simp add: gather_def list_all_iff)

lemma interp_point_query:
  "interp_point cfg (map dry_season_length sts)
     (tree_query (map geometry sts) x (nat (MAX_NEIGHBORS cfg)) (MAX_DISTANCE_KM cfg * 1000))
   = Inr (point_result cfg sts x)"
proof -
  let ?nb = "valid_neighbors (tree_query (map geometry sts) x (nat (MAX_NEIGHBORS cfg))
               (MAX_DISTANCE_KM cfg * 1000))"
  have b: "\<forall>i \<in> set (map snd ?nb). i < length (map dry_season_length sts)"
    using neighbors_index_bound [of _ _ "map geometry sts" x] by auto
  have m: "map (\<lambda>i. map dry_season_length sts ! i) (map snd ?nb)
         = map (\<lambda>i. dry_season_length (sts ! i)) (map snd ?nb)"
    using b by (intro map_cong) auto
  have g: "gather (map dry_season_length sts) (map snd ?nb)
         = Inr (map (\<lambda>i. dry_season_length (sts ! i)) (map snd ?nb))"
    using gather_ok [OF b] by (simp only: m)
  show ?thesis
    unfolding interp_point_def point_result_def neighbors_of_def Let_def
    by (simp add: g)
qed

lemma interp_rows_query:
  "interp_rows cfg (map dry_season_length sts)
     (map (\<lambda>x. tree_query (map geometry sts) x (nat (MAX_NEIGHBORS cfg))
              (MAX_DISTANCE_KM cfg * 1000)) batch)
   = Inr (map (fst \<circ> point_result cfg sts) batch, map (snd \<circ> point_result cfg sts) batch)"
proof (induction batch)
  case Nil
  show ?case by simp
next
  case (Cons x batch)
  obtain v n where p: "point_result cfg sts x = (v, n)" by (cases "point_result cfg sts x")
  show ?case
    using Cons interp_point_query [of cfg sts x] p by simp
qed


subsection \<open>The batch loop fills the buffers slice by slice\<close>

lemma assign_slice_step:
  assumes "s < e" "e \<le> length xs"
  shows "assign_slice (map f (take s xs) @ replicate (length xs - s) z) (int s) (int e)
           (map f (slice xs (int s) (int e)))
       = map f (take e xs) @ replicate (length xs - e) z"
proof -
  have l: "length (map f (take s xs)) = s" using assms by simp
  have t: "take s xs @ take (e - s) (drop s xs) = take e xs"
    using assms take_add [of s "e - s" xs] by simp
  have d: "drop e (map f (take s xs) @ replicate (length xs - s) z) = replicate (length xs - e) z"
    using assms l by simp
  have h: "take s (map f (take s xs) @ replicate (length xs - s) z) = map f (take s xs)"
    using l by simp
  have "assign_slice (map f (take s xs) @ replicate (length xs - s) z) (int s) (int e)
           (map f (slice xs (int s) (int e)))
      = map f (take s xs) @ map f (take (e - s) (drop s xs)) @ replicate (length xs - e) z"
    unfolding assign_slice_def slice_def nat_int by (simp only: h d)
  also have "\<dots> = map f (take s xs @ take (e - s) (drop s xs)) @ replicate (length xs - e) z"
    by simp
  finally show ?thesis by (simp only: t)
qed

lemma invariant_next:
  assumes "e = min (Suc i * b) (length xs)"
  shows "map f (take e xs) @ replicate (length xs - e) z
       = map f (take (Suc i * b) xs) @ replicate (length xs - Suc i * b) z"
proof (cases "Suc i * b \<le> length xs")
  case True
  then show ?thesis using assms by (simp add: min_def)
next
  case False
  then show ?thesis using assms by (simp add: min_def)
qed

lemma batch_loop_invariant:
  assumes bs: "batch_size cfg = int b" "0 < b" and k: "1 \<le> MAX_NEIGHBORS cfg"
    and m: "length grid \<le> m * b"
  shows "i \<le> m \<Longrightarrow>
     batch_loop cfg (map geometry sts) (map dry_season_length sts) grid (map int [i..<m])
       (map (fst \<circ> point_result cfg sts) (take (i * b) grid) @ replicate (length grid - i * b) 0,
        map (snd \<circ> point_result cfg sts) (take (i * b) grid) @ replicate (length grid - i * b) 0)
     = Inr (map (fst \<circ> point_result cfg sts) grid, map (snd \<circ> point_result cfg sts) grid)"
proof (induction "m - i" arbitrary: i)
  case 0
  then have "i = m" by simp
  then show ?case using m by simp
next
  case (Suc d)
  then have lt: "i < m" by simp
  have up: "map int [i..<m] = int i # map int [Suc i..<m]"
    using lt by (simp add: upt_conv_Cons)
  define e where "e = min (Suc i * b) (length grid)"
  have st: "int i * batch_size cfg = int (i * b)" using bs by simp
  have "(int i + 1) * batch_size cfg = int (Suc i * b)" using bs by (simp add: algebra_simps)
  then have en: "min ((int i + 1) * batch_size cfg) (int (length grid)) = int e"
    by (simp only: e_def of_nat_min)
  show ?case
  proof (cases "length grid \<le> i * b")
    case True
    then have "e \<le> i * b" using bs by (simp add: e_def)
    then have le: "int e \<le> int (i * b)" by (simp only: of_nat_le_iff)
    have f1: "map (fst \<circ> point_result cfg sts) (take (i * b) grid)
                @ replicate (length grid - i * b) 0 = map (fst \<circ> point_result cfg sts) grid"
      using True by simp
    have f2: "map (snd \<circ> point_result cfg sts) (take (i * b) grid)
                @ replicate (length grid - i * b) 0 = map (snd \<circ> point_result cfg sts) grid"
      using True by simp
    show ?thesis
      by (simp only: up batch_loop.simps st en Let_def le if_True f1 f2)
  next
    case False
    then have se: "i * b < e" "e \<le> length grid" using bs by (simp_all add: e_def)
    have q: "tree_query_batch (map geometry sts) (slice grid (int (i * b)) (int e))
               (MAX_NEIGHBORS cfg) (MAX_DISTANCE_KM cfg * 1000)
           = Inr (map (\<lambda>x. tree_query (map geometry sts) x (nat (MAX_NEIGHBORS cfg))
                    (MAX_DISTANCE_KM cfg * 1000)) (slice grid (int (i * b)) (int e)))"
      using k by (simp add: tree_query_batch_def)
    have ih: "batch_loop cfg (map geometry sts) (map dry_season_length sts) grid
                (map int [Suc i..<m])
       (map (fst \<circ> point_result cfg sts) (take (Suc i * b) grid)
          @ replicate (length grid - Suc i * b) 0,
        map (snd \<circ> point_result cfg sts) (take (Suc i * b) grid)
          @ replicate (length grid - Suc i * b) 0)
     = Inr (map (fst \<circ> point_result cfg sts) grid, map (snd \<circ> point_result cfg sts) grid)"
      using Suc.hyps(1) [of "Suc i"] Suc.hyps(2) lt by simp
    have a1: "assign_slice (map (fst \<circ> point_result cfg sts) (take (i * b) grid)
                 @ replicate (length grid - i * b) 0) (int (i * b)) (int e)
               (map (fst \<circ> point_result cfg sts) (slice grid (int (i * b)) (int e)))
       = map (fst \<circ> point_result cfg sts) (take (Suc i * b) grid)
          @ replicate (length grid - Suc i * b) 0"
      by (simp only: assign_slice_step [OF se] invariant_next [OF e_def])
    have a2: "assign_slice (map (snd \<circ> point_result cfg sts) (take (i * b) grid)
                 @ replicate (length grid - i * b) 0) (int (i * b)) (int e)
               (map (snd \<circ> point_result cfg sts) (slice grid (int (i * b)) (int e)))
       = map (snd \<circ> point_result cfg sts) (take (Suc i * b) grid)
          @ replicate (length grid - Suc i * b) 0"
      by (simp only: assign_slice_step [OF se] invariant_next [OF e_def])
    have ne: "\<not> int e \<le> int (i * b)" using se(1) by (simp only: of_nat_le_iff not_le)
    show ?thesis
      by (simp only: up batch_loop.simps st en Let_def ne if_False q interp_rows_query
          sum.case prod.case a1 a2 ih)
  qed
qed


subsection \<open>The run as a whole\<close>

lemma interpolate_ok:
  assumes "gdf \<noteq> []" "1 \<le> batch_size cfg" "1 \<le> MAX_NEIGHBORS cfg"
  shows "interpolate cfg gdf grid
       = Inr (map (fst \<circ> point_result cfg gdf) grid, map (snd \<circ> point_result cfg gdf) grid)"
proof -
  define b where "b = nat (batch_size cfg)"
  have bs: "batch_size cfg = int b" "0 < b" using assms(2) by (simp_all add: b_def)
  define m where "m = length grid div b + 1"
  have nb: "nat (int (length grid) div batch_size cfg + 1) = m"
    unfolding m_def bs(1) by (simp add: zdiv_int [symmetric] nat_add_distrib)
  have "length grid < (length grid div b + 1) * b"
    using bs(2) div_less_iff_less_mult [of b "length grid div b" "length grid div b + 1"]
    by (simp add: algebra_simps dividend_less_times_div)
  then have cover: "length grid \<le> m * b" by (simp add: m_def)
  have loop: "batch_loop cfg (map geometry gdf) (map dry_season_length gdf) grid
                (map int [0..<m]) (replicate (length grid) 0, replicate (length grid) 0)
            = Inr (map (fst \<circ> point_result cfg gdf) grid,
                   map (snd \<circ> point_result cfg gdf) grid)"
    using batch_loop_invariant [OF bs assms(3) cover, of 0 gdf] by simp
  have z: "batch_size cfg \<noteq> 0" using assms(2) by simp
  show ?thesis
    unfolding interpolate_def Let_def nb using assms(1) z loop by simp
qed

lemma interpolate_no_stations: "interpolate cfg [] grid = Inl ValueError"
  by (simp add: interpolate_def)

lemma interpolate_zero_batch:
  "gdf \<noteq> [] \<Longrightarrow> batch_size cfg = 0 \<Longrightarrow> interpolate cfg gdf grid = Inl ZeroDivisionError"
  by (simp add: interpolate_def)

lemma interpolate_empty_grid:
  assumes "gdf \<noteq> []" "batch_size cfg \<noteq> 0"
  shows "interpolate cfg gdf [] = Inr ([], [])"
proof -
  have "min (batch_size cfg) 0 \<le> 0" by simp
  then show ?thesis
    using assms by (simp add: interpolate_def Let_def)
qed

lemma interpolate_bad_k:
  assumes "gdf \<noteq> []" "1 \<le> batch_size cfg" "MAX_NEIGHBORS cfg < 1" "grid \<noteq> []"
  shows "interpolate cfg gdf grid = Inl ValueError"
proof -
  have "0 \<le> int (length grid) div batch_size cfg"
    using assms(2) by (simp add: pos_imp_zdiv_nonneg_iff)
  then have "0 < nat (int (length grid) div batch_size cfg + 1)" by simp
  then have up: "map int [0..<nat (int (length grid) div batch_size cfg + 1)]
               = 0 # map int [Suc 0..<nat (int (length grid) div batch_size cfg + 1)]"
    by (simp add: upt_conv_Cons)
  have "0 < int (length grid)" using assms(4) by simp
  then have pos: "\<not> min (batch_size cfg) (int (length grid)) \<le> 0"
    using assms(2) by linarith
  show ?thesis
    unfolding interpolate_def Let_def up
    using assms(1,2,3) pos by (simp add: tree_query_batch_def)
qed

lemma interpolate_negative_batch:
  assumes "gdf \<noteq> []" "batch_size cfg < 0"
  shows "interpolate cfg gdf grid = Inr (replicate (length grid) 0, replicate (length grid) 0)"
proof (cases "grid = []")
  case True
  then show ?thesis using interpolate_empty_grid [of gdf cfg] assms by simp
next
  case False
  then have "0 < int (length grid)" by simp
  then have "int (length grid) div batch_size cfg < 0"
    using assms(2) by (simp add: neg_imp_zdiv_neg_iff)
  then have "nat (int (length grid) div batch_size cfg + 1) = 0" by simp
  then show ?thesis
    using assms by (simp add: interpolate_def Let_def)
qed


lemma point_result_batch_size [simp]:
  "point_result (cfg\<lparr>batch_size := b\<rparr>) gdf x = point_result cfg gdf x"
  by (simp add: point_result_def neighbors_of_def Let_def)

subsection \<open>Neighbour lists and weights\<close>

lemma eps_pos: "0 < eps"
  by (simp add: eps_def)

lemma euclid_nonneg: "0 \<le> euclid p q"
  by (simp add: euclid_def)

lemma neighbors_of_take:
  "neighbors_of cfg gdf x
   = take (nat (MAX_NEIGHBORS cfg))
       (sort_key fst (candidates (map geometry gdf) x (MAX_DISTANCE_KM cfg * 1000)))"
  by (simp add: neighbors_of_def valid_neighbors_tree_query)

lemma neighbors_of_member:
  assumes "(d, i) \<in> set (neighbors_of cfg gdf x)"
  shows "i < length gdf \<and> d = euclid x (geometry (gdf ! i)) \<and> 0 \<le> d
         \<and> d < MAX_DISTANCE_KM cfg * 1000"
proof -
  have "(d, i) \<in> set (candidates (map geometry gdf) x (MAX_DISTANCE_KM cfg * 1000))"
    using assms set_hits_subset [of "nat (MAX_NEIGHBORS cfg)" "map geometry gdf" x]
    by (auto simp: neighbors_of_take)
  then show ?thesis
    using in_candidates [of d i "map geometry gdf" x] euclid_nonneg by auto
qed

lemma length_candidates: "length (candidates data x ub) \<le> length data"
proof -
  have "length (candidates data x ub)
        \<le> length (map (\<lambda>(i, p). (euclid x p, i)) (enumerate 0 data))"
    unfolding candidates_def by (rule length_filter_le)
  then show ?thesis by simp
qed

lemma length_neighbors_of:
  "length (neighbors_of cfg gdf x) \<le> nat (MAX_NEIGHBORS cfg)"
  "length (neighbors_of cfg gdf x) \<le> length gdf"
  using length_candidates [of "map geometry gdf" x "MAX_DISTANCE_KM cfg * 1000"]
  by (simp_all add: neighbors_of_take)

lemma sum_list_pos_real:
  fixes xs :: "real list"
  shows "xs \<noteq> [] \<Longrightarrow> \<forall>x \<in> set xs. 0 < x \<Longrightarrow> 0 < sum_list xs"
proof (induction xs)
  case Nil
  then show ?case by simp
next
  case (Cons x xs)
  then show ?case
    by (cases "xs = []") (auto intro: add_pos_pos)
qed

lemma raw_weights_pos:
  assumes "\<forall>x \<in> set d. 0 \<le> x"
  shows "\<forall>w \<in> set (raw_weights p d). 0 < w"
proof
  fix w assume "w \<in> set (raw_weights p d)"
  then obtain x where x: "x \<in> set d" "w = 1 / (x + eps) powi p"
    by (auto simp: raw_weights_def)
  then have "0 < x + eps" using assms eps_pos by (simp add: add_nonneg_pos)
  then show "0 < w" using x(2) by simp
qed

lemma raw_weights_sum_pos:
  assumes "d \<noteq> []" "\<forall>x \<in> set d. 0 \<le> x"
  shows "0 < sum_list (raw_weights p d)"
  using sum_list_pos_real [of "raw_weights p d"] raw_weights_pos [OF assms(2)] assms(1)
  by (simp add: raw_weights_def)

lemma sum_list_divide:
  fixes xs :: "real list"
  shows "sum_list (map (\<lambda>x. x / s) xs) = sum_list xs / s"
  by (induction xs) (simp_all add: add_divide_distrib)

lemma idw_weights_sum:
  assumes "d \<noteq> []" "\<forall>x \<in> set d. 0 \<le> x"
  shows "sum_list (idw_weights p d) = 1"
  using raw_weights_sum_pos [OF assms, of p]
  by (simp add: idw_weights_def Let_def sum_list_divide)

lemma idw_weights_nonneg:
  assumes "d \<noteq> []" "\<forall>x \<in> set d. 0 \<le> x"
  shows "\<forall>w \<in> set (idw_weights p d). 0 \<le> w"
proof
  fix w assume "w \<in> set (idw_weights p d)"
  then obtain r where r: "r \<in> set (raw_weights p d)" "w = r / sum_list (raw_weights p d)"
    by (auto simp: idw_weights_def Let_def)
  then show "0 \<le> w"
    using raw_weights_pos [OF assms(2), of p] raw_weights_sum_pos [OF assms, of p]
    by (simp add: less_imp_le)
qed

lemma length_idw_weights: "length (idw_weights p d) = length d"
  by (simp add: idw_weights_def raw_weights_def Let_def)

lemma dot_bounds:
  assumes "length w = length v" "\<forall>x \<in> set w. 0 \<le> x" "\<forall>y \<in> set v. lo \<le> y \<and> y \<le> hi"
  shows "lo * sum_list w \<le> dot w v \<and> dot w v \<le> hi * sum_list w"
  using assms
proof (induction w v rule: list_induct2)
  case Nil
  show ?case by (simp add: dot_def)
next
  case (Cons x xs y ys)
  then have ih: "lo * sum_list xs \<le> dot xs ys" "dot xs ys \<le> hi * sum_list xs"
    by simp_all
  have x: "0 \<le> x" "lo \<le> y" "y \<le> hi" using Cons.prems by simp_all
  have "x * lo \<le> x * y" "x * y \<le> x * hi"
    using x by (auto intro: mult_left_mono)
  then have "lo * x \<le> x * y" "x * y \<le> hi * x"
    by (simp_all add: mult.commute)
  then show ?case
    using ih by (simp add: dot_def algebra_simps)
qed

lemma dot_convex:
  assumes "length w = length v" "\<forall>x \<in> set w. 0 \<le> x" "sum_list w = 1" "v \<noteq> []"
  shows "Min (set v) \<le> dot w v \<and> dot w v \<le> Max (set v)"
proof -
  have "\<forall>y \<in> set v. Min (set v) \<le> y \<and> y \<le> Max (set v)" by simp
  from dot_bounds [OF assms(1,2) this] assms(3) show ?thesis by simp
qed

lemma interpolate_nth:
  assumes "gdf \<noteq> []" "1 \<le> batch_size cfg" "1 \<le> MAX_NEIGHBORS cfg" "j < length grid"
  shows "\<exists>res cnt. interpolate cfg gdf grid = Inr (res, cnt)
           \<and> length res = length grid \<and> length cnt = length grid
           \<and> (res ! j, cnt ! j) = point_result cfg gdf (grid ! j)"
  using assms by (simp add: interpolate_ok)


lemma euclid_self [simp]: "euclid p p = 0"
  by (simp add: euclid_def)

lemma neighbors_of_single:
  "neighbors_of cfg [s] x
   = (if 1 \<le> MAX_NEIGHBORS cfg \<and> euclid x (geometry s) < MAX_DISTANCE_KM cfg * 1000
      then [(euclid x (geometry s), 0)] else [])"
proof (cases "1 \<le> MAX_NEIGHBORS cfg")
  case True
  then obtain n where "nat (MAX_NEIGHBORS cfg) = Suc n"
    by (cases "nat (MAX_NEIGHBORS cfg)") auto
  then show ?thesis
    using True by (simp add: neighbors_of_take candidates_def)
next
  case False
  then have "nat (MAX_NEIGHBORS cfg) = 0" by simp
  then show ?thesis
    using False by (simp add: neighbors_of_take)
qed

lemma point_result_fallback:
  "int (length (neighbors_of cfg gdf x)) < MIN_NEIGHBORS cfg \<Longrightarrow>
   point_result cfg gdf x = (mean (map dry_season_length gdf), 0)"
  by (simp add: point_result_def Let_def)

lemma point_result_idw:
  "\<not> int (length (neighbors_of cfg gdf x)) < MIN_NEIGHBORS cfg \<Longrightarrow>
   point_result cfg gdf x
   = (dot (idw_weights (POWER cfg) (map fst (neighbors_of cfg gdf x)))
        (map (\<lambda>i. dry_season_length (gdf ! i)) (map snd (neighbors_of cfg gdf x))),
      int (length (neighbors_of cfg gdf x)))"
  by (simp add: point_result_def Let_def)

lemma point_result_count:
  "snd (point_result cfg gdf x) = 0
   \<or> (MIN_NEIGHBORS cfg \<le> snd (point_result cfg gdf x)
      \<and> snd (point_result cfg gdf x) \<le> min (MAX_NEIGHBORS cfg) (int (length gdf)))"
proof (cases "int (length (neighbors_of cfg gdf x)) < MIN_NEIGHBORS cfg")
  case True
  then show ?thesis by (simp add: point_result_fallback)
next
  case False
  show ?thesis
  proof (cases "neighbors_of cfg gdf x = []")
    case True
    then show ?thesis using False by (simp add: point_result_idw)
  next
    case ne: False
    then have "0 < length (neighbors_of cfg gdf x)" by simp
    then have "0 < nat (MAX_NEIGHBORS cfg)"
      using length_neighbors_of(1) [of cfg gdf x] by linarith
    then have "int (length (neighbors_of cfg gdf x)) \<le> MAX_NEIGHBORS cfg"
      using length_neighbors_of(1) [of cfg gdf x] by linarith
    moreover have "int (length (neighbors_of cfg gdf x)) \<le> int (length gdf)"
      using length_neighbors_of(2) [of cfg gdf x] by simp
    ultimately show ?thesis
      using False by (simp add: point_result_idw)
  qed
qed

lemma interpolate_errors:
  "interpolate cfg gdf grid = Inl e \<Longrightarrow> e = ValueError \<or> e = ZeroDivisionError"
proof -
  assume a: "interpolate cfg gdf grid = Inl e"
  show ?thesis
  proof (cases "gdf = []")
    case True
    then show ?thesis using a by (simp add: interpolate_no_stations)
  next
    case ne: False
    consider "batch_size cfg = 0" | "batch_size cfg < 0" | "1 \<le> batch_size cfg" by linarith
    then show ?thesis
    proof cases
      case 1
      then show ?thesis using a ne by (simp add: interpolate_zero_batch)
    next
      case 2
      then show ?thesis using a ne by (simp add: interpolate_negative_batch)
    next
      case 3
      show ?thesis
      proof (cases "1 \<le> MAX_NEIGHBORS cfg")
        case True
        then show ?thesis using a ne 3 by (simp add: interpolate_ok)
      next
        case False
        then show ?thesis
          using a ne 3 interpolate_bad_k [of gdf cfg grid] interpolate_empty_grid [of gdf cfg]
          by (cases "grid = []") auto
      qed
    qed
  qed
qed

subsection \<open>Order and content of a query row\<close>

lemma map_fst_filter_fst:
  "map fst (filter (\<lambda>(d, i). P d) xs) = filter P (map fst xs)"
  by (induction xs) auto

lemma map_fst_scored:
  "map fst (map (\<lambda>(i, p). (f p, i)) (enumerate n xs)) = map f xs"
  by (induction xs arbitrary: n) auto

lemma map_snd_scored:
  "map snd (map (\<lambda>(i, p). (f p, i)) (enumerate n xs)) = map fst (enumerate n xs)"
  by (induction xs arbitrary: n) auto

lemma map_fst_candidates:
  "map fst (candidates data x ub) = filter (\<lambda>d. d < ub) (map (euclid x) data)"
  unfolding candidates_def by (simp only: map_fst_filter_fst map_fst_scored)

lemma length_candidates_eq:
  "length (candidates data x ub) = length (filter (\<lambda>p. euclid x p < ub) data)"
proof -
  have "length (candidates data x ub) = length (map fst (candidates data x ub))" by simp
  also have "\<dots> = length (filter (\<lambda>d. d < ub) (map (euclid x) data))"
    by (simp only: map_fst_candidates)
  also have "\<dots> = length (filter (\<lambda>p. euclid x p < ub) data)"
    by (simp add: filter_map comp_def)
  finally show ?thesis .
qed

lemma distinct_snd_candidates: "distinct (map snd (candidates data x ub))"
proof -
  have "distinct (map snd (map (\<lambda>(i, p). (euclid x p, i)) (enumerate 0 data)))"
    by (simp only: map_snd_scored map_fst_enumerate) simp
  then show ?thesis
    unfolding candidates_def by (rule distinct_map_filter)
qed

lemma distinct_snd_hits:
  "distinct (map snd (take k (sort_key fst (candidates data x ub))))"
proof -
  let ?c = "candidates data x ub"
  have d: "distinct ?c" "inj_on snd (set ?c)"
    using distinct_snd_candidates [of data x ub] by (simp_all add: distinct_map)
  have "distinct (sort_key fst ?c)" using d(1) by simp
  then have "distinct (take k (sort_key fst ?c))" by simp
  moreover have "inj_on snd (set (take k (sort_key fst ?c)))"
    using d(2) set_hits_subset [of k data x ub] by (rule inj_on_subset)
  ultimately show ?thesis by (simp add: distinct_map)
qed

lemma sorted_fst_hits:
  "sorted (map fst (take k (sort_key fst (candidates data x ub))))"
proof -
  have "sorted (take k (map fst (sort_key fst (candidates data x ub))))"
    by (rule sorted_wrt_take) (rule sorted_sort_key)
  then show ?thesis by (simp only: take_map)
qed

lemma euclid_horizontal: "euclid (a, y) (b, y) = \<bar>a - b\<bar>"
  by (simp add: euclid_def)

subsection \<open>The loop as a sequence of slice writes\<close>

lemma batch_loop_writes:
  assumes "1 \<le> MAX_NEIGHBORS cfg"
  shows "batch_loop cfg (map geometry gdf) (map dry_season_length gdf) grid is bufs
       = Inr (foldl (write_batch cfg gdf grid) bufs (batch_slices cfg (length grid) is))"
proof (induction "is" arbitrary: bufs)
  case Nil
  show ?case by simp
next
  case (Cons i rest)
  obtain res cnt where b: "bufs = (res, cnt)" by (cases bufs)
  let ?s = "i * batch_size cfg"
  let ?e = "min ((i + 1) * batch_size cfg) (int (length grid))"
  show ?case
  proof (cases "?e \<le> ?s")
    case True
    then show ?thesis by (simp add: b Let_def)
  next
    case False
    have q: "tree_query_batch (map geometry gdf) (slice grid ?s ?e)
               (MAX_NEIGHBORS cfg) (MAX_DISTANCE_KM cfg * 1000)
           = Inr (map (\<lambda>x. tree_query (map geometry gdf) x (nat (MAX_NEIGHBORS cfg))
                    (MAX_DISTANCE_KM cfg * 1000)) (slice grid ?s ?e))"
      using assms by (simp add: tree_query_batch_def)
    have "batch_loop cfg (map geometry gdf) (map dry_season_length gdf) grid (i # rest)
            (res, cnt)
          = batch_loop cfg (map geometry gdf) (map dry_season_length gdf) grid rest
              (write_batch cfg gdf grid (res, cnt) (?s, ?e))"
      using False
      by (simp only: batch_loop.simps Let_def if_False q interp_rows_query sum.case prod.case
          write_batch_def)
    then show ?thesis
      using False Cons.IH [of "write_batch cfg gdf grid (res, cnt) (?s, ?e)"]
      by (simp add: b Let_def)
  qed
qed

lemma slots_from:
  assumes bs: "batch_size cfg = int b" "0 < b" and m: "n \<le> m * b"
  shows "i \<le> m \<Longrightarrow>
     concat (map (\<lambda>(start, end). [nat start..<nat end])
       (batch_slices cfg n (map int [i..<m]))) = [min (i * b) n..<n]"
proof (induction "m - i" arbitrary: i)
  case 0
  then have "i = m" by simp
  then show ?case using m by (simp add: min_absorb2)
next
  case (Suc d)
  then have lt: "i < m" by simp
  have up: "map int [i..<m] = int i # map int [Suc i..<m]"
    using lt by (simp add: upt_conv_Cons)
  define e where "e = min (Suc i * b) n"
  have st: "int i * batch_size cfg = int (i * b)" using bs by simp
  have "(int i + 1) * batch_size cfg = int (Suc i * b)" using bs by (simp add: algebra_simps)
  then have en: "min ((int i + 1) * batch_size cfg) (int n) = int e"
    by (simp only: e_def of_nat_min)
  show ?case
  proof (cases "n \<le> i * b")
    case True
    then have "e \<le> i * b" using bs by (simp add: e_def)
    then have le: "int e \<le> int (i * b)" by (simp only: of_nat_le_iff)
    have "[min (i * b) n..<n] = []" using True by (simp add: min_absorb2)
    then show ?thesis
      by (simp only: up batch_slices.simps st en Let_def le if_True) simp
  next
    case False
    then have se: "i * b < e" "e \<le> n" using bs by (simp_all add: e_def)
    have ne: "\<not> int e \<le> int (i * b)" using se(1) by (simp only: of_nat_le_iff not_le)
    have ih: "concat (map (\<lambda>(start, end). [nat start..<nat end])
                (batch_slices cfg n (map int [Suc i..<m]))) = [min (Suc i * b) n..<n]"
      using Suc.hyps(1) [of "Suc i"] Suc.hyps(2) lt by simp
    have "[i * b..<e] @ [e..<n] = [i * b..<n]"
      using se by (metis le_add_diff_inverse less_imp_le_nat upt_add_eq_append)
    moreover have "min (i * b) n = i * b" using False by simp
    ultimately show ?thesis
      by (simp only: up batch_slices.simps st en Let_def ne if_False list.map prod.case
          concat.simps nat_int ih e_def [symmetric])
  qed
qed

lemma written_slots_all:
  assumes "1 \<le> batch_size cfg"
  shows "written_slots cfg n = [0..<n]"
proof -
  define b where "b = nat (batch_size cfg)"
  have bs: "batch_size cfg = int b" "0 < b" using assms by (simp_all add: b_def)
  define m where "m = n div b + 1"
  have nb: "nat (int n div batch_size cfg + 1) = m"
    unfolding m_def bs(1) by (simp add: zdiv_int [symmetric] nat_add_distrib)
  have "n < (n div b + 1) * b"
    using bs(2) by (simp add: algebra_simps dividend_less_times_div)
  then have cover: "n \<le> m * b" by (simp add: m_def)
  show ?thesis
    unfolding written_slots_def nb using slots_from [OF bs cover, of 0] by simp
qed


lemma interpolate_as_writes:
  assumes "gdf \<noteq> []" "batch_size cfg \<noteq> 0" "1 \<le> MAX_NEIGHBORS cfg"
  shows "interpolate cfg gdf grid
       = Inr (foldl (write_batch cfg gdf grid)
                (replicate (length grid) 0, replicate (length grid) 0)
                (batch_slices cfg (length grid)
                   (map int [0..<nat (int (length grid) div batch_size cfg + 1)])))"
  using assms(1,2) by (simp add: interpolate_def Let_def batch_loop_writes [OF assms(3)])

subsection \<open>A neighbour at distance zero\<close>

lemma member_le_sum_list_real:
  fixes xs :: "real list"
  shows "\<forall>y \<in> set xs. 0 \<le> y \<Longrightarrow> x \<in> set xs \<Longrightarrow> x \<le> sum_list xs"
proof (induction xs)
  case Nil
  then show ?case by simp
next
  case (Cons a xs)
  have s: "0 \<le> sum_list xs" using Cons.prems(1) by (simp add: sum_list_nonneg)
  show ?case
  proof (cases "x = a")
    case True
    then show ?thesis using s by simp
  next
    case False
    then have "x \<le> sum_list xs" using Cons by simp
    moreover have "0 \<le> a" using Cons.prems(1) by simp
    ultimately show ?thesis by simp
  qed
qed

lemma weighted_shift:
  fixes z :: "(real \<times> real) list" and g :: "real \<Rightarrow> real" and v0 :: real
  shows "(\<Sum>(x, y)\<leftarrow>z. g x * y) - v0 * (\<Sum>(x, y)\<leftarrow>z. g x) = (\<Sum>(x, y)\<leftarrow>z. g x * (y - v0))"
  by (induction z) (auto simp: algebra_simps)

lemma weighted_abs:
  fixes z :: "(real \<times> real) list" and g :: "real \<Rightarrow> real" and v0 :: real
  assumes "\<forall>(x, y) \<in> set z. 0 < g x"
  shows "\<bar>\<Sum>(x, y)\<leftarrow>z. g x * (y - v0)\<bar> \<le> (\<Sum>(x, y)\<leftarrow>z. g x * \<bar>y - v0\<bar>)"
  using assms
proof (induction z)
  case Nil
  show ?case by simp
next
  case (Cons a z)
  obtain x y where a: "a = (x, y)" by (cases a)
  have gx: "0 < g x" using Cons.prems a by simp
  have ih: "\<bar>\<Sum>(x, y)\<leftarrow>z. g x * (y - v0)\<bar> \<le> (\<Sum>(x, y)\<leftarrow>z. g x * \<bar>y - v0\<bar>)"
    using Cons by simp
  have "\<bar>g x * (y - v0)\<bar> = g x * \<bar>y - v0\<bar>"
    using gx by (simp add: abs_mult)
  then show ?case
    using ih by (simp add: a)
qed

lemma weighted_divide:
  fixes z :: "(real \<times> real) list" and g h :: "real \<Rightarrow> real" and c :: real
  shows "(\<Sum>(x, y)\<leftarrow>z. g x * h y) / c = (\<Sum>(x, y)\<leftarrow>z. g x / c * h y)"
  by (induction z) (auto simp: add_divide_distrib)

lemma weighted_mean_near:
  fixes z :: "(real \<times> real) list" and g :: "real \<Rightarrow> real"
  assumes pos: "\<forall>(x, y) \<in> set z. 0 < g x" and mem: "(x0, v0) \<in> set z"
  shows "\<bar>(\<Sum>(x, y)\<leftarrow>z. g x * y) / (\<Sum>(x, y)\<leftarrow>z. g x) - v0\<bar>
         \<le> (\<Sum>(x, y)\<leftarrow>z. g x / g x0 * \<bar>y - v0\<bar>)"
proof -
  let ?S = "\<Sum>(x, y)\<leftarrow>z. g x"
  let ?A = "\<Sum>(x, y)\<leftarrow>z. g x * \<bar>y - v0\<bar>"
  have g0: "0 < g x0" using pos mem by auto
  have nn: "\<forall>w \<in> set (map (\<lambda>(x, y). g x) z). 0 \<le> w"
    using pos by (auto simp: less_imp_le)
  have "g x0 \<in> set (map (\<lambda>(x, y). g x) z)" using mem by force
  then have RS: "g x0 \<le> ?S" using member_le_sum_list_real [OF nn] by simp
  then have S: "0 < ?S" using g0 by simp
  have "(\<Sum>(x, y)\<leftarrow>z. g x * y) / ?S - v0 = ((\<Sum>(x, y)\<leftarrow>z. g x * y) - v0 * ?S) / ?S"
    using S by (simp add: field_simps)
  then have e: "(\<Sum>(x, y)\<leftarrow>z. g x * y) / ?S - v0 = (\<Sum>(x, y)\<leftarrow>z. g x * (y - v0)) / ?S"
    by (simp only: weighted_shift)
  have absle: "\<bar>\<Sum>(x, y)\<leftarrow>z. g x * (y - v0)\<bar> \<le> ?A"
    by (rule weighted_abs [OF pos])
  have A0: "0 \<le> ?A"
    using absle by linarith
  have "\<bar>(\<Sum>(x, y)\<leftarrow>z. g x * y) / ?S - v0\<bar> = \<bar>\<Sum>(x, y)\<leftarrow>z. g x * (y - v0)\<bar> / ?S"
    using S by (simp only: e abs_divide)
  also have "\<dots> \<le> ?A / ?S"
    using absle S by (simp add: divide_right_mono)
  also have "\<dots> \<le> ?A / g x0"
    using A0 RS g0 by (simp add: frac_le)
  also have "\<dots> = (\<Sum>(x, y)\<leftarrow>z. g x / g x0 * \<bar>y - v0\<bar>)"
    by (rule weighted_divide)
  finally show ?thesis .
qed

lemma dot_map_left:
  "dot (map h d) v = (\<Sum>(x, y)\<leftarrow>zip d v. h x * y)"
  by (simp add: dot_def zip_map1 comp_def case_prod_unfold)

lemma sum_over_zip_fst:
  "length d = length v \<Longrightarrow> (\<Sum>(x, y)\<leftarrow>zip d v. h x) = sum_list (map h d)"
  by (induction d v rule: list_induct2) simp_all

lemma weighted_divide_left:
  fixes z :: "(real \<times> real) list" and g :: "real \<Rightarrow> real" and c :: real
  shows "(\<Sum>(x, y)\<leftarrow>z. g x / c * y) = (\<Sum>(x, y)\<leftarrow>z. g x * y) / c"
  by (induction z) (auto simp: add_divide_distrib)

lemma dot_idw_weights:
  assumes "length d = length v"
  shows "dot (idw_weights p d) v
       = (\<Sum>(x, y)\<leftarrow>zip d v. (1 / (x + eps) powi p) * y)
         / (\<Sum>(x, y)\<leftarrow>zip d v. 1 / (x + eps) powi p)"
proof -
  have "dot (idw_weights p d) v
        = (\<Sum>(x, y)\<leftarrow>zip d v. (1 / (x + eps) powi p)
             / sum_list (map (\<lambda>x. 1 / (x + eps) powi p) d) * y)"
    unfolding idw_weights_def raw_weights_def Let_def
    by (simp only: map_map comp_def dot_map_left)
  also have "\<dots> = (\<Sum>(x, y)\<leftarrow>zip d v. (1 / (x + eps) powi p) * y)
                    / sum_list (map (\<lambda>x. 1 / (x + eps) powi p) d)"
    by (rule weighted_divide_left)
  finally show ?thesis
    by (simp only: sum_over_zip_fst [OF assms])
qed

lemma weight_ratio:
  assumes "0 \<le> x"
  shows "(1 / (x + eps) powi p) / (1 / (0 + eps) powi p) = (eps / (x + eps)) powi p"
proof -
  have "0 < x + eps" "0 < eps" using assms eps_pos by (simp_all add: add_nonneg_pos)
  then show ?thesis
    by (simp add: power_int_divide_distrib)
qed

lemma idw_dominated:
  assumes nonneg: "\<forall>x \<in> set d. 0 \<le> x" and len: "length d = length v"
    and zero: "(0, v0) \<in> set (zip d v)"
  shows "\<bar>dot (idw_weights p d) v - v0\<bar>
         \<le> (\<Sum>(x, y)\<leftarrow>zip d v. (eps / (x + eps)) powi p * \<bar>y - v0\<bar>)"
proof -
  let ?g = "\<lambda>x. 1 / (x + eps) powi p"
  have pos: "\<forall>(x, y) \<in> set (zip d v). 0 < ?g x"
  proof (clarify)
    fix x y assume "(x, y) \<in> set (zip d v)"
    then have "x \<in> set d" by (rule set_zip_leftD)
    then have "0 < x + eps" using nonneg eps_pos by (simp add: add_nonneg_pos)
    then show "0 < ?g x" by simp
  qed
  have "\<bar>dot (idw_weights p d) v - v0\<bar>
        \<le> (\<Sum>(x, y)\<leftarrow>zip d v. ?g x / ?g 0 * \<bar>y - v0\<bar>)"
    using weighted_mean_near [of "zip d v" ?g 0 v0, OF pos zero]
    by (simp only: dot_idw_weights [OF len])
  also have "\<dots> = (\<Sum>(x, y)\<leftarrow>zip d v. (eps / (x + eps)) powi p * \<bar>y - v0\<bar>)"
  proof -
    have "map (\<lambda>(x, y). ?g x / ?g 0 * \<bar>y - v0\<bar>) (zip d v)
          = map (\<lambda>(x, y). (eps / (x + eps)) powi p * \<bar>y - v0\<bar>) (zip d v)"
    proof (rule map_cong [OF refl], clarify)
      fix x y assume "(x, y) \<in> set (zip d v)"
      then have "x \<in> set d" by (rule set_zip_leftD)
      then have "0 \<le> x" using nonneg by simp
      then show "?g x / ?g 0 * \<bar>y - v0\<bar> = (eps / (x + eps)) powi p * \<bar>y - v0\<bar>"
        by (simp only: weight_ratio)
    qed
    then show ?thesis by (simp only:)
  qed
  finally show ?thesis .
qed


lemma euclid_eq_0: "euclid p q = 0 \<Longrightarrow> p = q"
proof -
  assume "euclid p q = 0"
  then have "(fst p - fst q)\<^sup>2 + (snd p - snd q)\<^sup>2 = 0"
    by (simp add: euclid_def)
  then have "fst p - fst q = 0 \<and> snd p - snd q = 0"
    by simp
  then show "p = q" by (simp add: prod_eq_iff)
qed

lemma coincident_head:
  assumes k: "1 \<le> MAX_NEIGHBORS cfg" and ub: "0 < MAX_DISTANCE_KM cfg"
    and m: "m < length gdf" "geometry (gdf ! m) = x"
  shows "\<exists>i0. (0, i0) \<in> set (neighbors_of cfg gdf x) \<and> i0 < length gdf
           \<and> geometry (gdf ! i0) = x"
proof -
  let ?c = "candidates (map geometry gdf) x (MAX_DISTANCE_KM cfg * 1000)"
  let ?s = "sort_key fst ?c"
  have zc: "(0, m) \<in> set ?c"
    using m ub by (simp add: in_candidates)
  then have zs: "(0, m) \<in> set ?s" by simp
  then obtain a rest where s: "?s = a # rest" by (cases ?s) auto
  have "sorted (map fst ?s)" by (rule sorted_sort_key)
  then have le: "\<forall>e \<in> set rest. fst a \<le> fst e" by (simp add: s)
  have a0: "fst a \<le> 0"
  proof (cases "a = (0, m)")
    case True
    then show ?thesis by simp
  next
    case False
    then have "(0, m) \<in> set rest" using zs by (simp add: s)
    then show ?thesis using le by fastforce
  qed
  have "a \<in> set ?s" by (simp add: s)
  then have ac: "(fst a, snd a) \<in> set ?c" by simp
  then have am: "snd a < length gdf" "fst a = euclid x (geometry (gdf ! snd a))"
    using in_candidates [of "fst a" "snd a" "map geometry gdf" x] by simp_all
  have f0: "fst a = 0" using a0 am(2) euclid_nonneg [of x "geometry (gdf ! snd a)"] by simp
  then have "euclid x (geometry (gdf ! snd a)) = 0" using am(2) by simp
  then have g: "geometry (gdf ! snd a) = x" using euclid_eq_0 by metis
  obtain n where n: "nat (MAX_NEIGHBORS cfg) = Suc n"
    using k by (cases "nat (MAX_NEIGHBORS cfg)") auto
  have "a \<in> set (neighbors_of cfg gdf x)"
    by (simp add: neighbors_of_take n s)
  then have "(0, snd a) \<in> set (neighbors_of cfg gdf x)"
    using f0 by (metis prod.collapse)
  then show ?thesis using am(1) g by blast
qed

lemma sum_zip_maps:
  "(\<Sum>(x, y)\<leftarrow>zip (map f xs) (map g xs). F x y) = (\<Sum>e\<leftarrow>xs. F (f e) (g e))"
  by (induction xs) simp_all

lemma in_zip_maps:
  "e \<in> set xs \<Longrightarrow> (f e, g e) \<in> set (zip (map f xs) (map g xs))"
  by (induction xs) auto

lemma ratio_power_le:
  fixes d :: real
  assumes "0 \<le> d" "1 \<le> p"
  shows "(eps / (d + eps)) powi p \<le> eps / (d + eps)"
proof -
  let ?x = "eps / (d + eps)"
  have pos: "0 < d + eps" using assms(1) eps_pos by (simp add: add_nonneg_pos)
  have x0: "0 \<le> ?x" using eps_pos pos by simp
  have x1: "?x \<le> 1" using assms(1) pos by simp
  have "?x ^ nat p \<le> ?x ^ 1"
    by (rule power_decreasing [OF _ x0 x1]) (use assms(2) in simp)
  moreover have "?x powi p = ?x ^ nat p" using assms(2) by (simp add: power_int_def)
  ultimately show ?thesis by simp
qed


subsection \<open>Rounding in float64\<close>

lemma binary_exponent_eq:
  "2 powi e \<le> x \<Longrightarrow> x < 2 powi (e + 1) \<Longrightarrow> nat \<bar>e\<bar> \<le> n \<Longrightarrow> binary_exponent n x = e"
proof (induction n arbitrary: x e)
  case 0
  then show ?case by simp
next
  case (Suc n)
  have up: "(2::real) powi (e + 1) = 2 * 2 powi e" by (simp add: power_int_add)
  consider "x < 1" | "2 \<le> x" | "1 \<le> x" "x < 2" by linarith
  then show ?case
  proof cases
    case 1
    have "e < 0"
    proof (rule ccontr)
      assume "\<not> e < 0"
      then have "(2::real) powi 0 \<le> 2 powi e" by (intro power_int_increasing) simp_all
      then show False using 1 Suc.prems(1) by simp
    qed
    then have n: "nat \<bar>e + 1\<bar> \<le> n" using Suc.prems(3) by simp
    have a: "2 powi (e + 1) \<le> 2 * x" using Suc.prems(1) by (simp add: up)
    have "(2::real) powi (e + 1 + 1) = 2 * 2 powi (e + 1)" by (simp add: power_int_add)
    then have b: "2 * x < 2 powi (e + 1 + 1)" using Suc.prems(2) by simp
    have "binary_exponent n (2 * x) = e + 1" by (rule Suc.IH [OF a b n])
    then show ?thesis using 1 by simp
  next
    case 2
    have "0 < e"
    proof (rule ccontr)
      assume "\<not> 0 < e"
      then have "(2::real) powi (e + 1) \<le> 2 powi 1" by (intro power_int_increasing) simp_all
      then show False using 2 Suc.prems(2) by simp
    qed
    then have n: "nat \<bar>e - 1\<bar> \<le> n" using Suc.prems(3) by simp
    have "(2::real) powi (e - 1 + 1) = 2 * 2 powi (e - 1)" by (rule power_int_add_1') simp
    then have e1: "(2::real) powi (e - 1) = 2 powi e / 2" by simp
    have a: "2 powi (e - 1) \<le> x / 2" using Suc.prems(1) by (simp add: e1)
    have b: "x / 2 < 2 powi (e - 1 + 1)" using Suc.prems(2) by (simp add: up)
    have "binary_exponent n (x / 2) = e - 1" by (rule Suc.IH [OF a b n])
    then show ?thesis using 2 by simp
  next
    case 3
    have "e < 1"
    proof (rule ccontr)
      assume "\<not> e < 1"
      then have "(2::real) powi 1 \<le> 2 powi e" by (intro power_int_increasing) simp_all
      then show False using 3 Suc.prems(1) by simp
    qed
    moreover have "0 \<le> e"
    proof (rule ccontr)
      assume "\<not> 0 \<le> e"
      then have "(2::real) powi (e + 1) \<le> 2 powi 0" by (intro power_int_increasing) simp_all
      then show False using 3 Suc.prems(2) by simp
    qed
    ultimately have "e = 0" by simp
    then show ?thesis using 3 by simp
  qed
qed

lemma f64_val:
  assumes "x = y" "2 powi e \<le> \<bar>y\<bar>" "\<bar>y\<bar> < 2 powi (e + 1)" "nat \<bar>e\<bar> \<le> 1100"
    and "round_half_even (y / 2 powi (e - 52)) = m" "of_int m * 2 powi (e - 52) = r"
  shows "f64 x = r"
proof -
  have ne: "y \<noteq> 0"
  proof
    assume "y = 0"
    then have "(2::real) powi e \<le> 0" using assms(2) by simp
    moreover have "(0::real) < 2 powi e" by simp
    ultimately show False by linarith
  qed
  have "binary_exponent 1100 \<bar>y\<bar> = e" by (rule binary_exponent_eq [OF assms(2,3,4)])
  then show ?thesis using ne assms(1,5,6) by (simp add: f64_def Let_def)
qed

text \<open>
  The distances 20000, 45000 and 223000 with \<open>POWER = 2\<close>: the weights after
  line 179 add up to \<open>1 - 2 ^ -53\<close>, and with the value 4 at each of the three
  stations line 180 gives \<open>4 - 2 ^ -51\<close>.
\<close>

lemma binary64_example:
  "raw_weights_f64 2 [20000, 45000, 223000]
     = [3022314549036573 / 1208925819614629174706176,
        597000404747965 / 1208925819614629174706176,
        194482224796739 / 9671406556917033397649408]"
  "sum_f64 (raw_weights_f64 2 [20000, 45000, 223000]) = 7287250463768261 / 2417851639229258349412352"
  "idw_weights_f64 2 [20000, 45000, 223000]
     = [7471292358901079 / 9007199254740992,
        1475810836326139 / 9007199254740992,
        7692295617762981 / 1152921504606846976]"
  "sum_f64 (idw_weights_f64 2 [20000, 45000, 223000]) = 1 - 1 / 2 ^ 53"
  "dot_f64 (idw_weights_f64 2 [20000, 45000, 223000]) [4, 4, 4] = 4 - 1 / 2 ^ 51"
proof -
  have e0: "f64 (1 / 10 ^ 12) = 4951760157141521 / 4951760157141521099596496896"
    by (rule f64_val [where y = "1 / 1000000000000" and e = "- 40" and m = 4951760157141521])
       (simp_all add: round_half_even_def Let_def)
  have a0: "f64 (20000 + (4951760157141521 / 4951760157141521099596496896)) = 20000"
    by (rule f64_val [where y = "99035203142830426943690095061521 / 4951760157141521099596496896" and e = "14" and m = 5497558138880000])
       (simp_all add: round_half_even_def Let_def)
  have p0: "f64 (20000 powi 2) = 400000000"
    by (rule f64_val [where y = "400000000" and e = "28" and m = 6710886400000000])
       (simp_all add: round_half_even_def Let_def)
  have q0: "f64 (1 / 400000000) = 3022314549036573 / 1208925819614629174706176"
    by (rule f64_val [where y = "1 / 400000000" and e = "- 29" and m = 6044629098073146])
       (simp_all add: round_half_even_def Let_def)
  have a1: "f64 (45000 + (4951760157141521 / 4951760157141521099596496896)) = 45000"
    by (rule f64_val [where y = "222829207071368454433602517461521 / 4951760157141521099596496896" and e = "15" and m = 6184752906240000])
       (simp_all add: round_half_even_def Let_def)
  have p1: "f64 (45000 powi 2) = 2025000000"
    by (rule f64_val [where y = "2025000000" and e = "30" and m = 8493465600000000])
       (simp_all add: round_half_even_def Let_def)
  have q1: "f64 (1 / 2025000000) = 597000404747965 / 1208925819614629174706176"
    by (rule f64_val [where y = "1 / 2025000000" and e = "- 31" and m = 4776003237983720])
       (simp_all add: round_half_even_def Let_def)
  have a2: "f64 (223000 + (4951760157141521 / 4951760157141521099596496896)) = 223000"
    by (rule f64_val [where y = "1104242515042559210161778964949521 / 4951760157141521099596496896" and e = "17" and m = 7662221656064000])
       (simp_all add: round_half_even_def Let_def)
  have p2: "f64 (223000 powi 2) = 49729000000"
    by (rule f64_val [where y = "49729000000" and e = "35" and m = 6518079488000000])
       (simp_all add: round_half_even_def Let_def)
  have q2: "f64 (1 / 49729000000) = 194482224796739 / 9671406556917033397649408"
    by (rule f64_val [where y = "1 / 49729000000" and e = "- 36" and m = 6223431193495648])
       (simp_all add: round_half_even_def Let_def)
  have s0: "f64 (0 + (3022314549036573 / 1208925819614629174706176)) = 3022314549036573 / 1208925819614629174706176"
    by (rule f64_val [where y = "3022314549036573 / 1208925819614629174706176" and e = "- 29" and m = 6044629098073146])
       (simp_all add: round_half_even_def Let_def)
  have s1: "f64 ((3022314549036573 / 1208925819614629174706176) + (597000404747965 / 1208925819614629174706176)) = 1809657476892269 / 604462909807314587353088"
    by (rule f64_val [where y = "1809657476892269 / 604462909807314587353088" and e = "- 29" and m = 7238629907569076])
       (simp_all add: round_half_even_def Let_def)
  have s2: "f64 ((1809657476892269 / 604462909807314587353088) + (194482224796739 / 9671406556917033397649408)) = 7287250463768261 / 2417851639229258349412352"
    by (rule f64_val [where y = "29149001855073043 / 9671406556917033397649408" and e = "- 29" and m = 7287250463768261])
       (simp_all add: round_half_even_def Let_def)
  have n0: "f64 ((3022314549036573 / 1208925819614629174706176) / (7287250463768261 / 2417851639229258349412352)) = 7471292358901079 / 9007199254740992"
    by (rule f64_val [where y = "863518442581878 / 1041035780538323" and e = "- 1" and m = 7471292358901079])
       (simp_all add: round_half_even_def Let_def)
  have n1: "f64 ((597000404747965 / 1208925819614629174706176) / (7287250463768261 / 2417851639229258349412352)) = 1475810836326139 / 9007199254740992"
    by (rule f64_val [where y = "1194000809495930 / 7287250463768261" and e = "- 3" and m = 5903243345304556])
       (simp_all add: round_half_even_def Let_def)
  have n2: "f64 ((194482224796739 / 9671406556917033397649408) / (7287250463768261 / 2417851639229258349412352)) = 7692295617762981 / 1152921504606846976"
    by (rule f64_val [where y = "194482224796739 / 29149001855073044" and e = "- 8" and m = 7692295617762981])
       (simp_all add: round_half_even_def Let_def)
  have t0: "f64 (0 + (7471292358901079 / 9007199254740992)) = 7471292358901079 / 9007199254740992"
    by (rule f64_val [where y = "7471292358901079 / 9007199254740992" and e = "- 1" and m = 7471292358901079])
       (simp_all add: round_half_even_def Let_def)
  have t1: "f64 ((7471292358901079 / 9007199254740992) + (1475810836326139 / 9007199254740992)) = 4473551597613609 / 4503599627370496"
    by (rule f64_val [where y = "4473551597613609 / 4503599627370496" and e = "- 1" and m = 8947103195227218])
       (simp_all add: round_half_even_def Let_def)
  have t2: "f64 ((4473551597613609 / 4503599627370496) + (7692295617762981 / 1152921504606846976)) = 9007199254740991 / 9007199254740992"
    by (rule f64_val [where y = "1152921504606846885 / 1152921504606846976" and e = "- 1" and m = 9007199254740991])
       (simp_all add: round_half_even_def Let_def)
  have m0: "f64 ((7471292358901079 / 9007199254740992) * 4) = 7471292358901079 / 2251799813685248"
    by (rule f64_val [where y = "7471292358901079 / 2251799813685248" and e = "1" and m = 7471292358901079])
       (simp_all add: round_half_even_def Let_def)
  have m1: "f64 ((1475810836326139 / 9007199254740992) * 4) = 1475810836326139 / 2251799813685248"
    by (rule f64_val [where y = "1475810836326139 / 2251799813685248" and e = "- 1" and m = 5903243345304556])
       (simp_all add: round_half_even_def Let_def)
  have m2: "f64 ((7692295617762981 / 1152921504606846976) * 4) = 7692295617762981 / 288230376151711744"
    by (rule f64_val [where y = "7692295617762981 / 288230376151711744" and e = "- 6" and m = 7692295617762981])
       (simp_all add: round_half_even_def Let_def)
  have u0: "f64 (0 + (7471292358901079 / 2251799813685248)) = 7471292358901079 / 2251799813685248"
    by (rule f64_val [where y = "7471292358901079 / 2251799813685248" and e = "1" and m = 7471292358901079])
       (simp_all add: round_half_even_def Let_def)
  have u1: "f64 ((7471292358901079 / 2251799813685248) + (1475810836326139 / 2251799813685248)) = 4473551597613609 / 1125899906842624"
    by (rule f64_val [where y = "4473551597613609 / 1125899906842624" and e = "1" and m = 8947103195227218])
       (simp_all add: round_half_even_def Let_def)
  have u2: "f64 ((4473551597613609 / 1125899906842624) + (7692295617762981 / 288230376151711744)) = 9007199254740991 / 2251799813685248"
    by (rule f64_val [where y = "1152921504606846885 / 288230376151711744" and e = "1" and m = 9007199254740991])
       (simp_all add: round_half_even_def Let_def)
  show raw: "raw_weights_f64 2 [20000, 45000, 223000]
     = [3022314549036573 / 1208925819614629174706176,
        597000404747965 / 1208925819614629174706176,
        194482224796739 / 9671406556917033397649408]"
    by (simp only: raw_weights_f64_def eps64_def list.map e0 a0 a1 a2 p0 p1 p2 q0 q1 q2)
  have sl: "sum_f64 [3022314549036573 / 1208925819614629174706176,
        597000404747965 / 1208925819614629174706176,
        194482224796739 / 9671406556917033397649408] = 7287250463768261 / 2417851639229258349412352"
    by (simp only: sum_f64_def foldl.simps s0 s1 s2)
  show "sum_f64 (raw_weights_f64 2 [20000, 45000, 223000]) = 7287250463768261 / 2417851639229258349412352"
    by (simp only: raw sl)
  show nw: "idw_weights_f64 2 [20000, 45000, 223000]
     = [7471292358901079 / 9007199254740992,
        1475810836326139 / 9007199254740992,
        7692295617762981 / 1152921504606846976]"
    by (simp only: idw_weights_f64_def Let_def raw sl list.map n0 n1 n2)
  have "sum_f64 (idw_weights_f64 2 [20000, 45000, 223000]) = 9007199254740991 / 9007199254740992"
    by (simp only: nw sum_f64_def foldl.simps t0 t1 t2)
  then show "sum_f64 (idw_weights_f64 2 [20000, 45000, 223000]) = 1 - 1 / 2 ^ 53"
    by simp
  have "dot_f64 (idw_weights_f64 2 [20000, 45000, 223000]) [4, 4, 4] = 9007199254740991 / 2251799813685248"
    by (simp only: nw dot_f64_def zip_Cons_Cons zip_Nil foldl.simps prod.case m0 m1 m2 u0 u1 u2)
  then show "dot_f64 (idw_weights_f64 2 [20000, 45000, 223000]) [4, 4, 4] = 4 - 1 / 2 ^ 51"
    by simp
qed

text \<open>
  The weight of a station at distance 0 is \<open>1 / eps ^ POWER\<close>: at
  \<open>POWER = 25\<close> it is below \<open>2 ^ 1024\<close>, the bound of float64, at
  \<open>POWER = 26\<close> it is above.
\<close>

lemma coincident_weight_range:
  "1 / eps powi 25 < 2 ^ 1024" "2 ^ 1024 < 1 / eps powi 26"
proof -
  have e: "1 / eps = 10 ^ 12" by (simp add: eps_def)
  have p: "1 / eps powi n = (1 / eps) powi n" for n
    by (simp add: power_int_divide_distrib)
  show "1 / eps powi 25 < 2 ^ 1024" by (simp only: p e) simp
  show "2 ^ 1024 < 1 / eps powi 26" by (simp only: p e) simp
qed


subsection \<open>Claims\<close>

text \<open>
  C9. A run on an empty grid returns normally with empty buffers, for every configuration
  with a non-zero batch size and every non-empty station table: the first pass of the loop
  stops at the \<open>break\<close>, before any query.
\<close>

theorem empty_grid_is_valid:
  assumes "gdf \<noteq> []" "batch_size cfg \<noteq> 0"
  shows "interpolate cfg gdf [] = Inr ([], [])"
  using assms by (rule interpolate_empty_grid)

theorem empty_grid_is_valid_witness:
  "[\<lparr>geometry = (0, 0), dry_season_length = 42\<rparr>] \<noteq> []
   \<and> batch_size script_config \<noteq> 0
   \<and> interpolate script_config [\<lparr>geometry = (0, 0), dry_season_length = 42\<rparr>] []
       = Inr ([], [])"
proof -
  have h1: "[\<lparr>geometry = (0, 0), dry_season_length = 42\<rparr>] \<noteq> []" by simp
  have h2: "batch_size script_config \<noteq> 0" by (simp add: script_config_def)
  show ?thesis using h1 h2 empty_grid_is_valid [OF h1 h2] by simp
qed

text \<open>
  C6, as the script has it. A run without stations fails at the construction of the index
  (line 140), before the batch loop and hence before any query, for every configuration and
  every grid. The exception is the \<open>ValueError\<close> of the library: the script has no check
  of its own and no \<open>EmptyInputError\<close>.
\<close>

theorem empty_stations_raise_value_error:
  "interpolate cfg [] coords_grid = Inl ValueError"
  by (simp add: interpolate_def)

text \<open>C6 as stated fails: the error of a run without stations is not \<open>EmptyInputError\<close>.\<close>

theorem empty_stations_not_empty_input_error:
  "interpolate script_config [] [(0, 0)] = Inl ValueError
   \<and> interpolate script_config [] [(0, 0)] \<noteq> Inl EmptyInputError"
  by (simp add: interpolate_def)

text \<open>
  C3, as the script has it. For batch sizes of at least one the result of a run, buffers or
  error, does not depend on the batch size.
\<close>

theorem batching_invariance:
  assumes "1 \<le> b1" "1 \<le> b2"
  shows "interpolate (cfg\<lparr>batch_size := b1\<rparr>) gdf grid
       = interpolate (cfg\<lparr>batch_size := b2\<rparr>) gdf grid"
proof (cases "gdf = []")
  case True
  then show ?thesis by (simp add: interpolate_no_stations)
next
  case ne: False
  show ?thesis
  proof (cases "grid = []")
    case True
    then show ?thesis
      using assms ne interpolate_empty_grid [of gdf "cfg\<lparr>batch_size := b1\<rparr>"]
        interpolate_empty_grid [of gdf "cfg\<lparr>batch_size := b2\<rparr>"] by simp
  next
    case g: False
    show ?thesis
    proof (cases "1 \<le> MAX_NEIGHBORS cfg")
      case True
      then show ?thesis
        using assms ne interpolate_ok [of gdf "cfg\<lparr>batch_size := b1\<rparr>" grid]
          interpolate_ok [of gdf "cfg\<lparr>batch_size := b2\<rparr>" grid] by simp
    next
      case False
      then show ?thesis
        using assms ne g interpolate_bad_k [of gdf "cfg\<lparr>batch_size := b1\<rparr>" grid]
          interpolate_bad_k [of gdf "cfg\<lparr>batch_size := b2\<rparr>" grid] by simp
    qed
  qed
qed

theorem batching_invariance_witness:
  "(1::int) \<le> 1 \<and> (1::int) \<le> 2
   \<and> interpolate (script_config\<lparr>batch_size := 1\<rparr>)
       [\<lparr>geometry = (0, 0), dry_season_length = 42\<rparr>] [(0, 0), (1, 0)]
     = interpolate (script_config\<lparr>batch_size := 2\<rparr>)
       [\<lparr>geometry = (0, 0), dry_season_length = 42\<rparr>] [(0, 0), (1, 0)]"
proof -
  have h1: "(1::int) \<le> 1" by simp
  have h2: "(1::int) \<le> 2" by simp
  show ?thesis using h1 h2 batching_invariance [OF h1 h2] by blast
qed

text \<open>
  C3 as stated fails on the empty grid: with \<open>batch_size = 1\<close> the run returns empty
  buffers, with \<open>batch_size = len(grid) = 0\<close> line 148 divides by zero.
\<close>

theorem batch_size_len_grid_differs:
  "interpolate (script_config\<lparr>batch_size := 1\<rparr>)
     [\<lparr>geometry = (0, 0), dry_season_length = 42\<rparr>] [] = Inr ([], [])
   \<and> interpolate (script_config\<lparr>batch_size := int (length ([] :: point list))\<rparr>)
       [\<lparr>geometry = (0, 0), dry_season_length = 42\<rparr>] [] = Inl ZeroDivisionError"
  by (simp add: interpolate_def script_config_def)

text \<open>
  C1. A grid point whose filtered row of the query has fewer than \<open>MIN_NEIGHBORS\<close>
  entries gets the arithmetic mean of the values of all stations as estimate and the
  neighbour count 0.
\<close>

theorem fallback_is_global_mean:
  assumes "gdf \<noteq> []" "1 \<le> batch_size cfg" "1 \<le> MAX_NEIGHBORS cfg" "j < length grid"
    and "int (length (neighbors_of cfg gdf (grid ! j))) < MIN_NEIGHBORS cfg"
  shows "\<exists>res cnt. interpolate cfg gdf grid = Inr (res, cnt)
           \<and> res ! j = sum_list (map dry_season_length gdf) / real (length gdf)
           \<and> cnt ! j = 0"
  using assms by (simp add: interpolate_ok point_result_def mean_def)

theorem fallback_is_global_mean_witness:
  "[\<lparr>geometry = (0, 0), dry_season_length = 40\<rparr>,
    \<lparr>geometry = (3, 0), dry_season_length = 50\<rparr>] \<noteq> []
   \<and> 1 \<le> batch_size script_config \<and> 1 \<le> MAX_NEIGHBORS script_config
   \<and> (0::nat) < length [(1, 1) :: point]
   \<and> int (length (neighbors_of script_config
         [\<lparr>geometry = (0, 0), dry_season_length = 40\<rparr>,
          \<lparr>geometry = (3, 0), dry_season_length = 50\<rparr>] ([(1, 1)] ! 0)))
       < MIN_NEIGHBORS script_config
   \<and> (\<exists>res cnt. interpolate script_config
         [\<lparr>geometry = (0, 0), dry_season_length = 40\<rparr>,
          \<lparr>geometry = (3, 0), dry_season_length = 50\<rparr>] [(1, 1)] = Inr (res, cnt)
        \<and> res ! 0 = 45 \<and> cnt ! 0 = 0)"
proof -
  let ?gdf = "[\<lparr>geometry = (0, 0), dry_season_length = 40\<rparr>,
               \<lparr>geometry = (3, 0), dry_season_length = (50::real)\<rparr>]"
  have h1: "?gdf \<noteq> []" by simp
  have h2: "1 \<le> batch_size script_config" by (simp add: script_config_def)
  have h3: "1 \<le> MAX_NEIGHBORS script_config" by (simp add: script_config_def)
  have h4: "(0::nat) < length [(1, 1) :: point]" by simp
  have "length (neighbors_of script_config ?gdf ([(1, 1)] ! 0)) \<le> length ?gdf"
    by (rule length_neighbors_of)
  then have h5: "int (length (neighbors_of script_config ?gdf ([(1, 1)] ! 0)))
                 < MIN_NEIGHBORS script_config"
    by (simp add: script_config_def)
  from fallback_is_global_mean [OF h1 h2 h3 h4 h5]
  have "\<exists>res cnt. interpolate script_config ?gdf [(1, 1)] = Inr (res, cnt)
          \<and> res ! 0 = 45 \<and> cnt ! 0 = 0"
    by simp
  then show ?thesis using h1 h2 h3 h4 h5 by blast
qed


text \<open>
  C10. In every run that returns, for every configuration, the neighbour count of a grid
  point is 0 or lies between \<open>MIN_NEIGHBORS\<close> and the smaller of
  \<open>MAX_NEIGHBORS\<close> and the number of stations.
\<close>

theorem neighbor_count_range:
  assumes "interpolate cfg gdf grid = Inr (res, cnt)" "j < length grid"
  shows "cnt ! j = 0
         \<or> (MIN_NEIGHBORS cfg \<le> cnt ! j
            \<and> cnt ! j \<le> min (MAX_NEIGHBORS cfg) (int (length gdf)))"
proof -
  have ne: "gdf \<noteq> []" using assms(1) by (auto simp: interpolate_no_stations)
  have nz: "batch_size cfg \<noteq> 0"
    using assms(1) ne interpolate_zero_batch [of gdf cfg grid] by auto
  have g: "grid \<noteq> []" using assms(2) by auto
  show ?thesis
  proof (cases "batch_size cfg < 0")
    case True
    then have "cnt = replicate (length grid) 0"
      using assms(1) ne interpolate_negative_batch [of gdf cfg grid] by simp
    then show ?thesis using assms(2) by simp
  next
    case False
    then have b: "1 \<le> batch_size cfg" using nz by simp
    have k: "1 \<le> MAX_NEIGHBORS cfg"
      using assms(1) ne b g interpolate_bad_k [of gdf cfg grid] by fastforce
    have "cnt = map (snd \<circ> point_result cfg gdf) grid"
      using assms(1) interpolate_ok [OF ne b k, of grid] by simp
    then have "cnt ! j = snd (point_result cfg gdf (grid ! j))"
      using assms(2) by simp
    then show ?thesis using point_result_count [of cfg gdf "grid ! j"] by simp
  qed
qed

theorem neighbor_count_range_witness:
  "interpolate (script_config\<lparr>MIN_NEIGHBORS := 1\<rparr>)
     [\<lparr>geometry = (0, 0), dry_season_length = 42\<rparr>] [(0, 0), (400000, 0)]
     = Inr ([42, 42], [1, 0])
   \<and> (0::nat) < length [(0, 0) :: point, (400000, 0)]
   \<and> ([1, 0] ! 0 = (0::int)
      \<or> (MIN_NEIGHBORS (script_config\<lparr>MIN_NEIGHBORS := 1\<rparr>) \<le> [1, 0] ! 0
         \<and> [1, 0] ! 0 \<le> min (MAX_NEIGHBORS (script_config\<lparr>MIN_NEIGHBORS := 1\<rparr>))
               (int (length [\<lparr>geometry = (0, 0), dry_season_length = (42::real)\<rparr>]))))"
proof -
  let ?cfg = "script_config\<lparr>MIN_NEIGHBORS := 1\<rparr>"
  let ?gdf = "[\<lparr>geometry = (0, 0), dry_season_length = (42::real)\<rparr>]"
  have far: "euclid (400000, 0) (0, 0) = 400000"
    by (simp add: euclid_def)
  have p0: "point_result ?cfg ?gdf (0, 0) = (42, 1)"
    by (simp add: point_result_def Let_def neighbors_of_single script_config_def
        idw_weights_def raw_weights_def dot_def eps_def)
  have p1: "point_result ?cfg ?gdf (400000, 0) = (42, 0)"
    by (simp add: point_result_def Let_def neighbors_of_single script_config_def far
        mean_def)
  have h1: "interpolate ?cfg ?gdf [(0, 0), (400000, 0)] = Inr ([42, 42], [1, 0])"
    using interpolate_ok [of ?gdf ?cfg "[(0, 0), (400000, 0)]"] p0 p1
    by (simp add: script_config_def)
  have h2: "(0::nat) < length [(0, 0) :: point, (400000, 0)]" by simp
  from neighbor_count_range [OF h1 h2] show ?thesis using h1 h2 by blast
qed


text \<open>
  C2, as the script has it. The branch is chosen by the filtered row of the query, which holds
  at most \<open>MAX_NEIGHBORS\<close> stations, each at a distance below the search radius. A grid
  point whose row has at least \<open>MIN_NEIGHBORS\<close> entries gets the weights
  \<open>1 / (d + eps) ^ POWER\<close> divided by their sum and, as estimate, the dot product of
  these with the values of the neighbours; its neighbour count is the length of the row.
\<close>

theorem idw_branch_estimate:
  assumes "gdf \<noteq> []" "1 \<le> batch_size cfg" "1 \<le> MAX_NEIGHBORS cfg" "j < length grid"
    and "MIN_NEIGHBORS cfg \<le> int (length (neighbors_of cfg gdf (grid ! j)))"
  shows "\<exists>res cnt. interpolate cfg gdf grid = Inr (res, cnt) \<and>
     (let nb = neighbors_of cfg gdf (grid ! j);
          d = map fst nb;
          w = idw_weights (POWER cfg) d;
          vs = map (\<lambda>i. dry_season_length (gdf ! i)) (map snd nb)
      in w = map (\<lambda>x. (1 / (x + eps) powi POWER cfg)
                        / (\<Sum>y\<leftarrow>d. 1 / (y + eps) powi POWER cfg)) d
         \<and> res ! j = dot w vs
         \<and> cnt ! j = int (length nb)
         \<and> length nb \<le> nat (MAX_NEIGHBORS cfg)
         \<and> (\<forall>(x, i) \<in> set nb. i < length gdf
               \<and> x = euclid (grid ! j) (geometry (gdf ! i))
               \<and> x < MAX_DISTANCE_KM cfg * 1000))"
proof -
  let ?nb = "neighbors_of cfg gdf (grid ! j)"
  let ?d = "map fst ?nb"
  let ?w = "idw_weights (POWER cfg) ?d"
  let ?vs = "map (\<lambda>i. dry_season_length (gdf ! i)) (map snd ?nb)"
  have run: "interpolate cfg gdf grid
       = Inr (map (fst \<circ> point_result cfg gdf) grid, map (snd \<circ> point_result cfg gdf) grid)"
    by (rule interpolate_ok [OF assms(1,2,3)])
  have pr: "point_result cfg gdf (grid ! j) = (dot ?w ?vs, int (length ?nb))"
    using assms(5) by (simp add: point_result_idw)
  have form: "?w = map (\<lambda>x. (1 / (x + eps) powi POWER cfg)
                        / (\<Sum>y\<leftarrow>?d. 1 / (y + eps) powi POWER cfg)) ?d"
    by (simp add: idw_weights_def raw_weights_def Let_def comp_def)
  have rj: "map (fst \<circ> point_result cfg gdf) grid ! j = dot ?w ?vs"
    using assms(4) pr by simp
  have cj: "map (snd \<circ> point_result cfg gdf) grid ! j = int (length ?nb)"
    using assms(4) pr by simp
  have cap: "length ?nb \<le> nat (MAX_NEIGHBORS cfg)"
    by (rule length_neighbors_of(1))
  have mem: "\<forall>(x, i) \<in> set ?nb. i < length gdf
               \<and> x = euclid (grid ! j) (geometry (gdf ! i))
               \<and> x < MAX_DISTANCE_KM cfg * 1000"
    using neighbors_of_member [of _ _ cfg gdf "grid ! j"] by auto
  have "interpolate cfg gdf grid
          = Inr (map (fst \<circ> point_result cfg gdf) grid, map (snd \<circ> point_result cfg gdf) grid)
        \<and> ?w = map (\<lambda>x. (1 / (x + eps) powi POWER cfg)
                        / (\<Sum>y\<leftarrow>?d. 1 / (y + eps) powi POWER cfg)) ?d
        \<and> map (fst \<circ> point_result cfg gdf) grid ! j = dot ?w ?vs
        \<and> map (snd \<circ> point_result cfg gdf) grid ! j = int (length ?nb)
        \<and> length ?nb \<le> nat (MAX_NEIGHBORS cfg)
        \<and> (\<forall>(x, i) \<in> set ?nb. i < length gdf
               \<and> x = euclid (grid ! j) (geometry (gdf ! i))
               \<and> x < MAX_DISTANCE_KM cfg * 1000)"
    using run form cj cap mem by (simp only: rj)
  then show ?thesis
    unfolding Let_def by blast
qed


theorem idw_branch_estimate_witness:
  "[\<lparr>geometry = (0, 0), dry_season_length = 10\<rparr>, \<lparr>geometry = (2, 0), dry_season_length = 30\<rparr>, \<lparr>geometry = (4, 0), dry_season_length = 50\<rparr>] \<noteq> []
   \<and> 1 \<le> batch_size script_config
   \<and> 1 \<le> MAX_NEIGHBORS script_config
   \<and> (0::nat) < length ([(1, 0)] :: point list)
   \<and> MIN_NEIGHBORS script_config \<le> int (length (neighbors_of script_config [\<lparr>geometry = (0, 0), dry_season_length = 10\<rparr>, \<lparr>geometry = (2, 0), dry_season_length = 30\<rparr>, \<lparr>geometry = (4, 0), dry_season_length = 50\<rparr>] (([(1, 0)] :: point list) ! 0)))
   \<and> (\<exists>res cnt. interpolate script_config [\<lparr>geometry = (0, 0), dry_season_length = 10\<rparr>, \<lparr>geometry = (2, 0), dry_season_length = 30\<rparr>, \<lparr>geometry = (4, 0), dry_season_length = 50\<rparr>] ([(1, 0)] :: point list) = Inr (res, cnt) \<and>
     (let nb = neighbors_of script_config [\<lparr>geometry = (0, 0), dry_season_length = 10\<rparr>, \<lparr>geometry = (2, 0), dry_season_length = 30\<rparr>, \<lparr>geometry = (4, 0), dry_season_length = 50\<rparr>] (([(1, 0)] :: point list) ! 0);
          d = map fst nb;
          w = idw_weights (POWER script_config) d;
          vs = map (\<lambda>i. dry_season_length ([\<lparr>geometry = (0, 0), dry_season_length = 10\<rparr>, \<lparr>geometry = (2, 0), dry_season_length = 30\<rparr>, \<lparr>geometry = (4, 0), dry_season_length = 50\<rparr>] ! i)) (map snd nb)
      in w = map (\<lambda>x. (1 / (x + eps) powi POWER script_config)
                        / (\<Sum>y\<leftarrow>d. 1 / (y + eps) powi POWER script_config)) d
         \<and> res ! 0 = dot w vs
         \<and> cnt ! 0 = int (length nb)
         \<and> length nb \<le> nat (MAX_NEIGHBORS script_config)
         \<and> (\<forall>(x, i) \<in> set nb. i < length [\<lparr>geometry = (0, 0), dry_season_length = 10\<rparr>, \<lparr>geometry = (2, 0), dry_season_length = 30\<rparr>, \<lparr>geometry = (4, 0), dry_season_length = 50\<rparr>]
               \<and> x = euclid (([(1, 0)] :: point list) ! 0) (geometry ([\<lparr>geometry = (0, 0), dry_season_length = 10\<rparr>, \<lparr>geometry = (2, 0), dry_season_length = 30\<rparr>, \<lparr>geometry = (4, 0), dry_season_length = 50\<rparr>] ! i))
               \<and> x < MAX_DISTANCE_KM script_config * 1000)))"
proof -
  have nb: "neighbors_of script_config [\<lparr>geometry = (0, 0), dry_season_length = 10\<rparr>, \<lparr>geometry = (2, 0), dry_season_length = 30\<rparr>, \<lparr>geometry = (4, 0), dry_season_length = 50\<rparr>] (([(1, 0)] :: point list) ! 0) = [(1, 0), (1, 1), (3, 2)]"
    by (simp add: neighbors_of_take candidates_def euclid_horizontal script_config_def)
  have h1: "[\<lparr>geometry = (0, 0), dry_season_length = 10\<rparr>, \<lparr>geometry = (2, 0), dry_season_length = 30\<rparr>, \<lparr>geometry = (4, 0), dry_season_length = 50\<rparr>] \<noteq> []"
    by (simp add: script_config_def)
  have h2: "1 \<le> batch_size script_config"
    by (simp add: script_config_def)
  have h3: "1 \<le> MAX_NEIGHBORS script_config"
    by (simp add: script_config_def)
  have h4: "(0::nat) < length ([(1, 0)] :: point list)"
    by (simp add: script_config_def)
  have h5: "MIN_NEIGHBORS script_config \<le> int (length (neighbors_of script_config [\<lparr>geometry = (0, 0), dry_season_length = 10\<rparr>, \<lparr>geometry = (2, 0), dry_season_length = 30\<rparr>, \<lparr>geometry = (4, 0), dry_season_length = 50\<rparr>] (([(1, 0)] :: point list) ! 0)))"
    by (simp only: nb) (simp add: script_config_def)
  have c: "(\<exists>res cnt. interpolate script_config [\<lparr>geometry = (0, 0), dry_season_length = 10\<rparr>, \<lparr>geometry = (2, 0), dry_season_length = 30\<rparr>, \<lparr>geometry = (4, 0), dry_season_length = 50\<rparr>] ([(1, 0)] :: point list) = Inr (res, cnt) \<and>
     (let nb = neighbors_of script_config [\<lparr>geometry = (0, 0), dry_season_length = 10\<rparr>, \<lparr>geometry = (2, 0), dry_season_length = 30\<rparr>, \<lparr>geometry = (4, 0), dry_season_length = 50\<rparr>] (([(1, 0)] :: point list) ! 0);
          d = map fst nb;
          w = idw_weights (POWER script_config) d;
          vs = map (\<lambda>i. dry_season_length ([\<lparr>geometry = (0, 0), dry_season_length = 10\<rparr>, \<lparr>geometry = (2, 0), dry_season_length = 30\<rparr>, \<lparr>geometry = (4, 0), dry_season_length = 50\<rparr>] ! i)) (map snd nb)
      in w = map (\<lambda>x. (1 / (x + eps) powi POWER script_config)
                        / (\<Sum>y\<leftarrow>d. 1 / (y + eps) powi POWER script_config)) d
         \<and> res ! 0 = dot w vs
         \<and> cnt ! 0 = int (length nb)
         \<and> length nb \<le> nat (MAX_NEIGHBORS script_config)
         \<and> (\<forall>(x, i) \<in> set nb. i < length [\<lparr>geometry = (0, 0), dry_season_length = 10\<rparr>, \<lparr>geometry = (2, 0), dry_season_length = 30\<rparr>, \<lparr>geometry = (4, 0), dry_season_length = 50\<rparr>]
               \<and> x = euclid (([(1, 0)] :: point list) ! 0) (geometry ([\<lparr>geometry = (0, 0), dry_season_length = 10\<rparr>, \<lparr>geometry = (2, 0), dry_season_length = 30\<rparr>, \<lparr>geometry = (4, 0), dry_season_length = 50\<rparr>] ! i))
               \<and> x < MAX_DISTANCE_KM script_config * 1000)))"
    by (rule idw_branch_estimate [OF h1 h2 h3 h4 h5])
  show ?thesis using h1 h2 h3 h4 h5 c by blast
qed

text \<open>
  C2 as stated fails, in the choice of the branch and in the arithmetic. Three stations lie
  within the search radius of the grid point and \<open>MIN_NEIGHBORS\<close> is 3, yet the
  point gets the mean of all stations, 272.5, above the greatest value (50) of the stations
  in range, and the count 0: once because \<open>MAX_NEIGHBORS = 2\<close> caps the row at two
  entries, once because the third station lies exactly at the radius, which the query
  excludes. And in the IDW branch, for stations of value 4 at the distances 20000, 45000 and
  223000 from the grid point, the float64 weights of the script do not add up to 1 and the
  estimate is below 4, the least of the values.
\<close>

theorem stations_in_range_yet_fallback:
  "MIN_NEIGHBORS (script_config\<lparr>MAX_NEIGHBORS := 2\<rparr>) = 3
   \<and> length (filter (\<lambda>s. euclid (0, 0) (geometry s)
                           \<le> MAX_DISTANCE_KM (script_config\<lparr>MAX_NEIGHBORS := 2\<rparr>) * 1000)
        [\<lparr>geometry = (0, 0), dry_season_length = 10\<rparr>,
         \<lparr>geometry = (1, 0), dry_season_length = 30\<rparr>,
         \<lparr>geometry = (2, 0), dry_season_length = 50\<rparr>,
         \<lparr>geometry = (400000, 0), dry_season_length = 1000\<rparr>]) = 3
   \<and> interpolate (script_config\<lparr>MAX_NEIGHBORS := 2\<rparr>)
        [\<lparr>geometry = (0, 0), dry_season_length = 10\<rparr>,
         \<lparr>geometry = (1, 0), dry_season_length = 30\<rparr>,
         \<lparr>geometry = (2, 0), dry_season_length = 50\<rparr>,
         \<lparr>geometry = (400000, 0), dry_season_length = 1000\<rparr>] [(0, 0)]
       = Inr ([545 / 2], [0])
   \<and> MIN_NEIGHBORS script_config = 3
   \<and> length (filter (\<lambda>s. euclid (0, 0) (geometry s) \<le> MAX_DISTANCE_KM script_config * 1000)
        [\<lparr>geometry = (0, 0), dry_season_length = 10\<rparr>,
         \<lparr>geometry = (1, 0), dry_season_length = 30\<rparr>,
         \<lparr>geometry = (300000, 0), dry_season_length = 50\<rparr>,
         \<lparr>geometry = (400000, 0), dry_season_length = 1000\<rparr>]) = 3
   \<and> interpolate script_config
        [\<lparr>geometry = (0, 0), dry_season_length = 10\<rparr>,
         \<lparr>geometry = (1, 0), dry_season_length = 30\<rparr>,
         \<lparr>geometry = (300000, 0), dry_season_length = 50\<rparr>,
         \<lparr>geometry = (400000, 0), dry_season_length = 1000\<rparr>] [(0, 0)]
       = Inr ([545 / 2], [0])
   \<and> map fst (neighbors_of script_config
        [\<lparr>geometry = (20000, 0), dry_season_length = 4\<rparr>,
         \<lparr>geometry = (45000, 0), dry_season_length = 4\<rparr>,
         \<lparr>geometry = (223000, 0), dry_season_length = 4\<rparr>] (0, 0))
       = [20000, 45000, 223000]
   \<and> sum_f64 (idw_weights_f64 (POWER script_config) [20000, 45000, 223000]) = 1 - 1 / 2 ^ 53
   \<and> dot_f64 (idw_weights_f64 (POWER script_config) [20000, 45000, 223000]) [4, 4, 4]
       = 4 - 1 / 2 ^ 51
   \<and> dot_f64 (idw_weights_f64 (POWER script_config) [20000, 45000, 223000]) [4, 4, 4]
       < Min (set [4, 4, 4])"
proof -
  let ?cfg = "script_config\<lparr>MAX_NEIGHBORS := 2\<rparr>"
  let ?g1 = "[\<lparr>geometry = (0, 0), dry_season_length = 10\<rparr>,
         \<lparr>geometry = (1, 0), dry_season_length = 30\<rparr>,
         \<lparr>geometry = (2, 0), dry_season_length = 50\<rparr>,
         \<lparr>geometry = (400000, 0), dry_season_length = (1000::real)\<rparr>]"
  let ?g2 = "[\<lparr>geometry = (0, 0), dry_season_length = 10\<rparr>,
         \<lparr>geometry = (1, 0), dry_season_length = 30\<rparr>,
         \<lparr>geometry = (300000, 0), dry_season_length = 50\<rparr>,
         \<lparr>geometry = (400000, 0), dry_season_length = (1000::real)\<rparr>]"
  have m1: "MIN_NEIGHBORS ?cfg = 3" by (simp add: script_config_def)
  have m2: "MIN_NEIGHBORS script_config = 3" by (simp add: script_config_def)
  have r1: "length (filter (\<lambda>s. euclid (0, 0) (geometry s) \<le> MAX_DISTANCE_KM ?cfg * 1000) ?g1) = 3"
    by (simp add: euclid_horizontal script_config_def)
  have r2: "length (filter (\<lambda>s. euclid (0, 0) (geometry s) \<le> MAX_DISTANCE_KM script_config * 1000) ?g2) = 3"
    by (simp add: euclid_horizontal script_config_def)
  have nb1: "neighbors_of ?cfg ?g1 (0, 0) = [(0, 0), (1, 1)]"
    by (simp add: neighbors_of_take candidates_def euclid_horizontal script_config_def)
  have nb2: "neighbors_of script_config ?g2 (0, 0) = [(0, 0), (1, 1)]"
    by (simp add: neighbors_of_take candidates_def euclid_horizontal script_config_def)
  have p1: "point_result ?cfg ?g1 (0, 0) = (545 / 2, 0)"
    by (simp add: point_result_def Let_def nb1 mean_def) (simp add: script_config_def)
  have p2: "point_result script_config ?g2 (0, 0) = (545 / 2, 0)"
    by (simp add: point_result_def Let_def nb2 mean_def) (simp add: script_config_def)
  have i1: "interpolate ?cfg ?g1 [(0, 0)] = Inr ([545 / 2], [0])"
    using interpolate_ok [of ?g1 ?cfg "[(0, 0)]"] p1 by (simp add: script_config_def)
  have i2: "interpolate script_config ?g2 [(0, 0)] = Inr ([545 / 2], [0])"
    using interpolate_ok [of ?g2 script_config "[(0, 0)]"] p2 by (simp add: script_config_def)
  have nb3: "map fst (neighbors_of script_config
        [\<lparr>geometry = (20000, 0), dry_season_length = 4\<rparr>,
         \<lparr>geometry = (45000, 0), dry_season_length = 4\<rparr>,
         \<lparr>geometry = (223000, 0), dry_season_length = 4\<rparr>] (0, 0))
       = [20000, 45000, 223000]"
    by (simp add: neighbors_of_take candidates_def euclid_horizontal script_config_def)
  have pw: "POWER script_config = 2" by (simp add: script_config_def)
  have f1: "sum_f64 (idw_weights_f64 (POWER script_config) [20000, 45000, 223000])
              = 1 - 1 / 2 ^ 53"
    by (simp only: pw binary64_example(4))
  have f2: "dot_f64 (idw_weights_f64 (POWER script_config) [20000, 45000, 223000]) [4, 4, 4]
              = 4 - 1 / 2 ^ 51"
    by (simp only: pw binary64_example(5))
  have f3: "dot_f64 (idw_weights_f64 (POWER script_config) [20000, 45000, 223000]) [4, 4, 4]
              < Min (set [4, 4, 4])"
    by (simp only: f2) simp
  show ?thesis using m1 m2 r1 r2 i1 i2 nb3 f1 f2 f3 by (simp only:)
qed


text \<open>
  C7, as the script has it. The run validates no parameter: it never raises
  \<open>InvalidConfigurationError\<close>, and with stations, a batch size of at least one and
  \<open>MAX_NEIGHBORS\<close> of at least one it returns buffers of the length of the grid for
  every \<open>POWER\<close> and every \<open>MIN_NEIGHBORS\<close>.
\<close>

theorem no_configuration_validation:
  "interpolate cfg gdf grid \<noteq> Inl InvalidConfigurationError
   \<and> (gdf \<noteq> [] \<and> 1 \<le> batch_size cfg \<and> 1 \<le> MAX_NEIGHBORS cfg \<longrightarrow>
        (\<exists>res cnt. interpolate cfg gdf grid = Inr (res, cnt)
           \<and> length res = length grid \<and> length cnt = length grid))"
  using interpolate_errors [of cfg gdf grid InvalidConfigurationError]
  by (auto simp: interpolate_ok)

theorem no_configuration_validation_witness:
  "interpolate (script_config\<lparr>POWER := - 1, MIN_NEIGHBORS := 20\<rparr>)
     [\<lparr>geometry = (0, 0), dry_season_length = 42\<rparr>] [(0, 0)]
     \<noteq> Inl InvalidConfigurationError
   \<and> [\<lparr>geometry = (0, 0), dry_season_length = (42::real)\<rparr>] \<noteq> []
   \<and> 1 \<le> batch_size (script_config\<lparr>POWER := - 1, MIN_NEIGHBORS := 20\<rparr>)
   \<and> 1 \<le> MAX_NEIGHBORS (script_config\<lparr>POWER := - 1, MIN_NEIGHBORS := 20\<rparr>)
   \<and> (\<exists>res cnt. interpolate (script_config\<lparr>POWER := - 1, MIN_NEIGHBORS := 20\<rparr>)
         [\<lparr>geometry = (0, 0), dry_season_length = 42\<rparr>] [(0, 0)] = Inr (res, cnt)
        \<and> length res = length [(0, 0) :: point] \<and> length cnt = length [(0, 0) :: point])"
proof -
  let ?cfg = "script_config\<lparr>POWER := - 1, MIN_NEIGHBORS := 20\<rparr>"
  let ?gdf = "[\<lparr>geometry = (0, 0), dry_season_length = (42::real)\<rparr>]"
  have h1: "?gdf \<noteq> []" by simp
  have h2: "1 \<le> batch_size ?cfg" by (simp add: script_config_def)
  have h3: "1 \<le> MAX_NEIGHBORS ?cfg" by (simp add: script_config_def)
  show ?thesis
    using no_configuration_validation [of ?cfg ?gdf "[(0, 0)]"] h1 h2 h3 by blast
qed

text \<open>
  C7 as stated fails: with \<open>POWER = 0\<close>, with \<open>MIN_NEIGHBORS = 0\<close> and with
  \<open>MAX_NEIGHBORS = 2 < MIN_NEIGHBORS = 3\<close> the run returns results.
\<close>

theorem invalid_configurations_run:
  "interpolate (script_config\<lparr>POWER := 0\<rparr>)
     [\<lparr>geometry = (0, 0), dry_season_length = 42\<rparr>] [(0, 0)] = Inr ([42], [0])
   \<and> interpolate (script_config\<lparr>MIN_NEIGHBORS := 0\<rparr>)
       [\<lparr>geometry = (0, 0), dry_season_length = 42\<rparr>] [(0, 0)] = Inr ([42], [1])
   \<and> interpolate (script_config\<lparr>MAX_NEIGHBORS := 2\<rparr>)
       [\<lparr>geometry = (0, 0), dry_season_length = 42\<rparr>] [(0, 0)] = Inr ([42], [0])"
proof -
  let ?gdf = "[\<lparr>geometry = (0, 0), dry_season_length = (42::real)\<rparr>]"
  have a: "point_result (script_config\<lparr>POWER := 0\<rparr>) ?gdf (0, 0) = (42, 0)"
    by (simp add: point_result_def Let_def neighbors_of_single script_config_def mean_def)
  have b: "point_result (script_config\<lparr>MIN_NEIGHBORS := 0\<rparr>) ?gdf (0, 0) = (42, 1)"
    by (simp add: point_result_def Let_def neighbors_of_single script_config_def
        idw_weights_def raw_weights_def dot_def eps_def)
  have c: "point_result (script_config\<lparr>MAX_NEIGHBORS := 2\<rparr>) ?gdf (0, 0) = (42, 0)"
    by (simp add: point_result_def Let_def neighbors_of_single script_config_def mean_def)
  have "interpolate (script_config\<lparr>POWER := 0\<rparr>) ?gdf [(0, 0)] = Inr ([42], [0])"
    using interpolate_ok [of ?gdf "script_config\<lparr>POWER := 0\<rparr>" "[(0, 0)]"] a
    by (simp add: script_config_def)
  moreover have "interpolate (script_config\<lparr>MIN_NEIGHBORS := 0\<rparr>) ?gdf [(0, 0)]
                 = Inr ([42], [1])"
    using interpolate_ok [of ?gdf "script_config\<lparr>MIN_NEIGHBORS := 0\<rparr>" "[(0, 0)]"] b
    by (simp add: script_config_def)
  moreover have "interpolate (script_config\<lparr>MAX_NEIGHBORS := 2\<rparr>) ?gdf [(0, 0)]
                 = Inr ([42], [0])"
    using interpolate_ok [of ?gdf "script_config\<lparr>MAX_NEIGHBORS := 2\<rparr>" "[(0, 0)]"] c
    by (simp add: script_config_def)
  ultimately show ?thesis by blast
qed


text \<open>
  C4. The row of the query has exactly \<open>k\<close> entries, padded with \<open>(inf, n)\<close>;
  after the filter of lines 167 to 169 at most \<open>k\<close> pairs remain, as many as the
  smaller of \<open>k\<close> and the number of stations in range, in ascending order of distance,
  each the distance and index of a station of the table, no station twice, none farther
  than the bound, none a padding entry.
\<close>

theorem query_row_after_filter:
  "(let nb = valid_neighbors (tree_query data x k ub)
    in length (tree_query data x k ub) = k
       \<and> length nb \<le> k
       \<and> length nb = min k (length (filter (\<lambda>p. euclid x p < ub) data))
       \<and> sorted (map fst nb)
       \<and> distinct (map snd nb)
       \<and> (\<forall>(d, i) \<in> set nb. i < length data \<and> d = euclid x (data ! i) \<and> d \<le> ub))"
proof -
  let ?nb = "valid_neighbors (tree_query data x k ub)"
  have nb: "?nb = take k (sort_key fst (candidates data x ub))"
    by (rule valid_neighbors_tree_query)
  have l0: "length (tree_query data x k ub) = k"
    by (simp add: tree_query_def Let_def)
  have l1: "length ?nb \<le> k" by (simp add: nb)
  have l2: "length ?nb = min k (length (filter (\<lambda>p. euclid x p < ub) data))"
    by (simp add: nb length_candidates_eq min.commute)
  have s: "sorted (map fst ?nb)" by (simp only: nb sorted_fst_hits)
  have d: "distinct (map snd ?nb)" by (simp only: nb distinct_snd_hits)
  have m: "\<forall>(d, i) \<in> set ?nb. i < length data \<and> d = euclid x (data ! i) \<and> d \<le> ub"
  proof (clarify, intro conjI)
    fix d i assume "(d, i) \<in> set ?nb"
    then have "(d, i) \<in> set (candidates data x ub)"
      using set_hits_subset [of k data x ub] by (auto simp: nb)
    then have *: "i < length data \<and> d = euclid x (data ! i) \<and> d < ub"
      by (simp add: in_candidates)
    show "i < length data" using * by simp
    show "d = euclid x (data ! i)" using * by simp
    show "d \<le> ub" using * by simp
  qed
  show ?thesis unfolding Let_def using l0 l1 l2 s d m by blast
qed

theorem query_row_after_filter_witness:
  "tree_query [(0, 0), (3, 0), (10, 0)] (1, 0) 3 5 = [(Fin 1, 0), (Fin 2, 1), (PInf, 3)]
   \<and> valid_neighbors (tree_query [(0, 0), (3, 0), (10, 0)] (1, 0) 3 5) = [(1, 0), (2, 1)]
   \<and> (let nb = valid_neighbors (tree_query [(0, 0), (3, 0), (10, 0)] (1, 0) 3 5)
      in length (tree_query [(0, 0), (3, 0), (10, 0)] (1, 0) 3 5) = 3
         \<and> length nb \<le> 3
         \<and> length nb
             = min 3 (length (filter (\<lambda>p. euclid (1, 0) p < 5) [(0, 0), (3, 0), (10, 0)]))
         \<and> sorted (map fst nb)
         \<and> distinct (map snd nb)
         \<and> (\<forall>(d, i) \<in> set nb. i < length [(0, 0) :: point, (3, 0), (10, 0)]
               \<and> d = euclid (1, 0) ([(0, 0), (3, 0), (10, 0)] ! i) \<and> d \<le> 5))"
proof -
  have q: "tree_query [(0, 0), (3, 0), (10, 0)] (1, 0) 3 5
           = [(Fin 1, 0), (Fin 2, 1), (PInf, 3)]"
    by (simp add: tree_query_def candidates_def euclid_horizontal Let_def
        numeral_3_eq_3)
  have v: "valid_neighbors (tree_query [(0, 0), (3, 0), (10, 0)] (1, 0) 3 5)
           = [(1, 0), (2, 1)]"
    by (simp only: q) simp
  show ?thesis
    using q v query_row_after_filter [of "[(0, 0), (3, 0), (10, 0)]" "(1, 0)" 3 5]
    by blast
qed


text \<open>
  C5. With stations, a batch size of at least one and \<open>MAX_NEIGHBORS\<close> of at least
  one, the run returns, for every grid: buffers of the length of the grid, slot \<open>j\<close>
  holding the result of grid point \<open>j\<close>. The run is the sequence of slice writes of
  \<open>batch_slices\<close>, and these slices cover every slot exactly once, in ascending
  order, also when the length of the grid is a multiple of the batch size.
\<close>

theorem every_point_one_value:
  assumes "gdf \<noteq> []" "1 \<le> batch_size cfg" "1 \<le> MAX_NEIGHBORS cfg"
  shows "\<exists>res cnt. interpolate cfg gdf grid = Inr (res, cnt)
           \<and> length res = length grid \<and> length cnt = length grid
           \<and> (\<forall>j < length grid. (res ! j, cnt ! j) = point_result cfg gdf (grid ! j))
           \<and> (res, cnt)
               = foldl (write_batch cfg gdf grid)
                   (replicate (length grid) 0, replicate (length grid) 0)
                   (batch_slices cfg (length grid)
                      (map int [0..<nat (int (length grid) div batch_size cfg + 1)]))
           \<and> written_slots cfg (length grid) = [0..<length grid]"
proof -
  have z: "batch_size cfg \<noteq> 0" using assms(2) by simp
  have run: "interpolate cfg gdf grid
       = Inr (map (fst \<circ> point_result cfg gdf) grid, map (snd \<circ> point_result cfg gdf) grid)"
    by (rule interpolate_ok [OF assms])
  have w: "(map (fst \<circ> point_result cfg gdf) grid, map (snd \<circ> point_result cfg gdf) grid)
           = foldl (write_batch cfg gdf grid)
               (replicate (length grid) 0, replicate (length grid) 0)
               (batch_slices cfg (length grid)
                  (map int [0..<nat (int (length grid) div batch_size cfg + 1)]))"
    using run interpolate_as_writes [OF assms(1) z assms(3), of grid] by simp
  have s: "written_slots cfg (length grid) = [0..<length grid]"
    by (rule written_slots_all [OF assms(2)])
  have p: "\<forall>j < length grid.
             (map (fst \<circ> point_result cfg gdf) grid ! j,
              map (snd \<circ> point_result cfg gdf) grid ! j) = point_result cfg gdf (grid ! j)"
    by simp
  have l: "length (map (fst \<circ> point_result cfg gdf) grid) = length grid"
          "length (map (snd \<circ> point_result cfg gdf) grid) = length grid"
    by simp_all
  show ?thesis
    using run l p w s by blast
qed

theorem every_point_one_value_witness:
  "[\<lparr>geometry = (0, 0), dry_season_length = 42\<rparr>] \<noteq> []
   \<and> 1 \<le> batch_size (script_config\<lparr>batch_size := 2\<rparr>)
   \<and> 1 \<le> MAX_NEIGHBORS (script_config\<lparr>batch_size := 2\<rparr>)
   \<and> (\<exists>res cnt. interpolate (script_config\<lparr>batch_size := 2\<rparr>) [\<lparr>geometry = (0, 0), dry_season_length = 42\<rparr>] ([(0, 0), (1, 0), (2, 0), (3, 0)] :: point list) = Inr (res, cnt)
        \<and> length res = length ([(0, 0), (1, 0), (2, 0), (3, 0)] :: point list)
        \<and> length cnt = length ([(0, 0), (1, 0), (2, 0), (3, 0)] :: point list)
        \<and> (\<forall>j < length ([(0, 0), (1, 0), (2, 0), (3, 0)] :: point list).
              (res ! j, cnt ! j) = point_result (script_config\<lparr>batch_size := 2\<rparr>) [\<lparr>geometry = (0, 0), dry_season_length = 42\<rparr>] (([(0, 0), (1, 0), (2, 0), (3, 0)] :: point list) ! j))
        \<and> (res, cnt)
            = foldl (write_batch (script_config\<lparr>batch_size := 2\<rparr>) [\<lparr>geometry = (0, 0), dry_season_length = 42\<rparr>] ([(0, 0), (1, 0), (2, 0), (3, 0)] :: point list))
                (replicate (length ([(0, 0), (1, 0), (2, 0), (3, 0)] :: point list)) 0, replicate (length ([(0, 0), (1, 0), (2, 0), (3, 0)] :: point list)) 0)
                (batch_slices (script_config\<lparr>batch_size := 2\<rparr>) (length ([(0, 0), (1, 0), (2, 0), (3, 0)] :: point list))
                   (map int [0..<nat (int (length ([(0, 0), (1, 0), (2, 0), (3, 0)] :: point list))
                      div batch_size (script_config\<lparr>batch_size := 2\<rparr>) + 1)]))
        \<and> written_slots (script_config\<lparr>batch_size := 2\<rparr>) (length ([(0, 0), (1, 0), (2, 0), (3, 0)] :: point list)) = [0..<length ([(0, 0), (1, 0), (2, 0), (3, 0)] :: point list)])"
proof -
  have h1: "[\<lparr>geometry = (0, 0), dry_season_length = 42\<rparr>] \<noteq> []" by simp
  have h2: "1 \<le> batch_size (script_config\<lparr>batch_size := 2\<rparr>)" by simp
  have h3: "1 \<le> MAX_NEIGHBORS (script_config\<lparr>batch_size := 2\<rparr>)" by (simp add: script_config_def)
  have c: "\<exists>res cnt. interpolate (script_config\<lparr>batch_size := 2\<rparr>) [\<lparr>geometry = (0, 0), dry_season_length = 42\<rparr>] ([(0, 0), (1, 0), (2, 0), (3, 0)] :: point list) = Inr (res, cnt)
        \<and> length res = length ([(0, 0), (1, 0), (2, 0), (3, 0)] :: point list)
        \<and> length cnt = length ([(0, 0), (1, 0), (2, 0), (3, 0)] :: point list)
        \<and> (\<forall>j < length ([(0, 0), (1, 0), (2, 0), (3, 0)] :: point list).
              (res ! j, cnt ! j) = point_result (script_config\<lparr>batch_size := 2\<rparr>) [\<lparr>geometry = (0, 0), dry_season_length = 42\<rparr>] (([(0, 0), (1, 0), (2, 0), (3, 0)] :: point list) ! j))
        \<and> (res, cnt)
            = foldl (write_batch (script_config\<lparr>batch_size := 2\<rparr>) [\<lparr>geometry = (0, 0), dry_season_length = 42\<rparr>] ([(0, 0), (1, 0), (2, 0), (3, 0)] :: point list))
                (replicate (length ([(0, 0), (1, 0), (2, 0), (3, 0)] :: point list)) 0, replicate (length ([(0, 0), (1, 0), (2, 0), (3, 0)] :: point list)) 0)
                (batch_slices (script_config\<lparr>batch_size := 2\<rparr>) (length ([(0, 0), (1, 0), (2, 0), (3, 0)] :: point list))
                   (map int [0..<nat (int (length ([(0, 0), (1, 0), (2, 0), (3, 0)] :: point list))
                      div batch_size (script_config\<lparr>batch_size := 2\<rparr>) + 1)]))
        \<and> written_slots (script_config\<lparr>batch_size := 2\<rparr>) (length ([(0, 0), (1, 0), (2, 0), (3, 0)] :: point list)) = [0..<length ([(0, 0), (1, 0), (2, 0), (3, 0)] :: point list)]"
    by (rule every_point_one_value [OF h1 h2 h3])
  show ?thesis using h1 h2 h3 c by blast
qed


text \<open>
  C8, as the script has it. For a grid point at the position of a station, within a positive
  search radius, whose filtered row has at least \<open>MIN_NEIGHBORS\<close> entries, and for
  \<open>POWER\<close> from 1 to 25 (beyond, \<open>1 / eps ^ POWER\<close> is outside the range
  of a float64): the nearest neighbour returned is a station at that position, at distance 0;
  the neighbour count is the length of the row; every denominator
  \<open>(d + eps) ^ POWER\<close> and the normalising sum are positive, so no division is by
  zero; and the estimate differs from the value of that station by at most the sum, over the
  neighbours, of \<open>(eps / (d + eps)) ^ POWER\<close> times the distance of their values,
  each factor being at most \<open>eps / (d + eps)\<close>. The bound is one of exact arithmetic.
\<close>

theorem coincident_point_estimate:
  assumes "gdf \<noteq> []" "1 \<le> batch_size cfg" "1 \<le> MAX_NEIGHBORS cfg"
    and "0 < MAX_DISTANCE_KM cfg" "j < length grid" "m < length gdf"
    and "geometry (gdf ! m) = grid ! j"
    and "MIN_NEIGHBORS cfg \<le> int (length (neighbors_of cfg gdf (grid ! j)))"
    and "1 \<le> POWER cfg" "POWER cfg \<le> 25"
  shows "\<exists>res cnt i0. interpolate cfg gdf grid = Inr (res, cnt)
     \<and> (let nb = neighbors_of cfg gdf (grid ! j)
        in (0, i0) \<in> set nb \<and> i0 < length gdf \<and> geometry (gdf ! i0) = grid ! j
           \<and> cnt ! j = int (length nb)
           \<and> (\<forall>(d, i) \<in> set nb. 0 < (d + eps) powi POWER cfg)
           \<and> 0 < (\<Sum>(d, i)\<leftarrow>nb. 1 / (d + eps) powi POWER cfg)
           \<and> (\<forall>(d, i) \<in> set nb. (eps / (d + eps)) powi POWER cfg \<le> eps / (d + eps))
           \<and> \<bar>res ! j - dry_season_length (gdf ! i0)\<bar>
               \<le> (\<Sum>(d, i)\<leftarrow>nb. (eps / (d + eps)) powi POWER cfg
                     * \<bar>dry_season_length (gdf ! i) - dry_season_length (gdf ! i0)\<bar>))"
proof -
  let ?nb = "neighbors_of cfg gdf (grid ! j)"
  let ?d = "map fst ?nb"
  let ?v = "map (\<lambda>e. dry_season_length (gdf ! snd e)) ?nb"
  obtain i0 where i0: "(0, i0) \<in> set ?nb" "i0 < length gdf" "geometry (gdf ! i0) = grid ! j"
    using coincident_head [OF assms(3,4,6,7)] by blast
  have run: "interpolate cfg gdf grid
       = Inr (map (fst \<circ> point_result cfg gdf) grid, map (snd \<circ> point_result cfg gdf) grid)"
    by (rule interpolate_ok [OF assms(1,2,3)])
  have pr: "fst (point_result cfg gdf (grid ! j)) = dot (idw_weights (POWER cfg) ?d) ?v"
    using assms(8) by (simp add: point_result_idw comp_def)
  have rj: "map (fst \<circ> point_result cfg gdf) grid ! j = dot (idw_weights (POWER cfg) ?d) ?v"
    using assms(5) pr by simp
  have "snd (point_result cfg gdf (grid ! j)) = int (length ?nb)"
    using assms(8) by (simp add: point_result_idw)
  then have cj: "map (snd \<circ> point_result cfg gdf) grid ! j = int (length ?nb)"
    using assms(5) by simp
  have dpos: "\<forall>x \<in> set ?d. 0 \<le> x"
    using neighbors_of_member [of _ _ cfg gdf "grid ! j"] by auto
  have den: "\<forall>(d, i) \<in> set ?nb. 0 < (d + eps) powi POWER cfg"
  proof (clarify)
    fix d i assume "(d, i) \<in> set ?nb"
    then have "0 \<le> d" using neighbors_of_member [of d i cfg gdf "grid ! j"] by simp
    then have "0 < d + eps" using eps_pos by (simp add: add_nonneg_pos)
    then show "0 < (d + eps) powi POWER cfg" by simp
  qed
  have fac: "\<forall>(d, i) \<in> set ?nb. (eps / (d + eps)) powi POWER cfg \<le> eps / (d + eps)"
  proof (clarify)
    fix d i assume "(d, i) \<in> set ?nb"
    then have "0 \<le> d" using neighbors_of_member [of d i cfg gdf "grid ! j"] by simp
    then show "(eps / (d + eps)) powi POWER cfg \<le> eps / (d + eps)"
      by (rule ratio_power_le [OF _ assms(9)])
  qed
  have dne: "?d \<noteq> []" using i0(1) by auto
  have "0 < sum_list (raw_weights (POWER cfg) ?d)"
    by (rule raw_weights_sum_pos [OF dne dpos])
  then have sm: "0 < (\<Sum>(d, i)\<leftarrow>?nb. 1 / (d + eps) powi POWER cfg)"
    by (simp add: raw_weights_def comp_def case_prod_unfold)
  have z: "(0, dry_season_length (gdf ! i0)) \<in> set (zip ?d ?v)"
    using in_zip_maps [OF i0(1), of fst "\<lambda>e. dry_season_length (gdf ! snd e)"] by simp
  have "\<bar>dot (idw_weights (POWER cfg) ?d) ?v - dry_season_length (gdf ! i0)\<bar>
        \<le> (\<Sum>(x, y)\<leftarrow>zip ?d ?v. (eps / (x + eps)) powi POWER cfg
               * \<bar>y - dry_season_length (gdf ! i0)\<bar>)"
    by (rule idw_dominated [OF dpos _ z]) simp
  also have "\<dots> = (\<Sum>e\<leftarrow>?nb. (eps / (fst e + eps)) powi POWER cfg
               * \<bar>dry_season_length (gdf ! snd e) - dry_season_length (gdf ! i0)\<bar>)"
    by (rule sum_zip_maps)
  also have "\<dots> = (\<Sum>(d, i)\<leftarrow>?nb. (eps / (d + eps)) powi POWER cfg
               * \<bar>dry_season_length (gdf ! i) - dry_season_length (gdf ! i0)\<bar>)"
    by (simp add: case_prod_unfold)
  finally have bound: "\<bar>map (fst \<circ> point_result cfg gdf) grid ! j
                          - dry_season_length (gdf ! i0)\<bar>
        \<le> (\<Sum>(d, i)\<leftarrow>?nb. (eps / (d + eps)) powi POWER cfg
               * \<bar>dry_season_length (gdf ! i) - dry_season_length (gdf ! i0)\<bar>)"
    by (simp only: rj)
  show ?thesis
    unfolding Let_def using run i0 cj den sm fac bound by blast
qed

theorem coincident_point_estimate_witness:
  "[\<lparr>geometry = (0, 0), dry_season_length = 10\<rparr>, \<lparr>geometry = (3, 0), dry_season_length = 20\<rparr>, \<lparr>geometry = (5, 0), dry_season_length = 30\<rparr>] \<noteq> []
   \<and> 1 \<le> batch_size script_config
   \<and> 1 \<le> MAX_NEIGHBORS script_config
   \<and> 0 < MAX_DISTANCE_KM script_config
   \<and> (0::nat) < length ([(0, 0)] :: point list)
   \<and> (0::nat) < length [\<lparr>geometry = (0, 0), dry_season_length = 10\<rparr>, \<lparr>geometry = (3, 0), dry_season_length = 20\<rparr>, \<lparr>geometry = (5, 0), dry_season_length = 30\<rparr>]
   \<and> geometry ([\<lparr>geometry = (0, 0), dry_season_length = 10\<rparr>, \<lparr>geometry = (3, 0), dry_season_length = 20\<rparr>, \<lparr>geometry = (5, 0), dry_season_length = 30\<rparr>] ! 0) = ([(0, 0)] :: point list) ! 0
   \<and> MIN_NEIGHBORS script_config \<le> int (length (neighbors_of script_config [\<lparr>geometry = (0, 0), dry_season_length = 10\<rparr>, \<lparr>geometry = (3, 0), dry_season_length = 20\<rparr>, \<lparr>geometry = (5, 0), dry_season_length = 30\<rparr>] (([(0, 0)] :: point list) ! 0)))
   \<and> 1 \<le> POWER script_config
   \<and> POWER script_config \<le> 25
   \<and> (\<exists>res cnt i0. interpolate script_config [\<lparr>geometry = (0, 0), dry_season_length = 10\<rparr>, \<lparr>geometry = (3, 0), dry_season_length = 20\<rparr>, \<lparr>geometry = (5, 0), dry_season_length = 30\<rparr>] ([(0, 0)] :: point list) = Inr (res, cnt)
     \<and> (let nb = neighbors_of script_config [\<lparr>geometry = (0, 0), dry_season_length = 10\<rparr>, \<lparr>geometry = (3, 0), dry_season_length = 20\<rparr>, \<lparr>geometry = (5, 0), dry_season_length = 30\<rparr>] (([(0, 0)] :: point list) ! 0)
        in (0, i0) \<in> set nb \<and> i0 < length [\<lparr>geometry = (0, 0), dry_season_length = 10\<rparr>, \<lparr>geometry = (3, 0), dry_season_length = 20\<rparr>, \<lparr>geometry = (5, 0), dry_season_length = 30\<rparr>]
           \<and> geometry ([\<lparr>geometry = (0, 0), dry_season_length = 10\<rparr>, \<lparr>geometry = (3, 0), dry_season_length = 20\<rparr>, \<lparr>geometry = (5, 0), dry_season_length = 30\<rparr>] ! i0) = ([(0, 0)] :: point list) ! 0
           \<and> cnt ! 0 = int (length nb)
           \<and> (\<forall>(d, i) \<in> set nb. 0 < (d + eps) powi POWER script_config)
           \<and> 0 < (\<Sum>(d, i)\<leftarrow>nb. 1 / (d + eps) powi POWER script_config)
           \<and> (\<forall>(d, i) \<in> set nb. (eps / (d + eps)) powi POWER script_config \<le> eps / (d + eps))
           \<and> \<bar>res ! 0 - dry_season_length ([\<lparr>geometry = (0, 0), dry_season_length = 10\<rparr>, \<lparr>geometry = (3, 0), dry_season_length = 20\<rparr>, \<lparr>geometry = (5, 0), dry_season_length = 30\<rparr>] ! i0)\<bar>
               \<le> (\<Sum>(d, i)\<leftarrow>nb. (eps / (d + eps)) powi POWER script_config
                     * \<bar>dry_season_length ([\<lparr>geometry = (0, 0), dry_season_length = 10\<rparr>, \<lparr>geometry = (3, 0), dry_season_length = 20\<rparr>, \<lparr>geometry = (5, 0), dry_season_length = 30\<rparr>] ! i) - dry_season_length ([\<lparr>geometry = (0, 0), dry_season_length = 10\<rparr>, \<lparr>geometry = (3, 0), dry_season_length = 20\<rparr>, \<lparr>geometry = (5, 0), dry_season_length = 30\<rparr>] ! i0)\<bar>)))"
proof -
  have nb: "neighbors_of script_config [\<lparr>geometry = (0, 0), dry_season_length = 10\<rparr>, \<lparr>geometry = (3, 0), dry_season_length = 20\<rparr>, \<lparr>geometry = (5, 0), dry_season_length = 30\<rparr>] (([(0, 0)] :: point list) ! 0) = [(0, 0), (3, 1), (5, 2)]"
    by (simp add: neighbors_of_take candidates_def euclid_horizontal script_config_def)
  have h1: "[\<lparr>geometry = (0, 0), dry_season_length = 10\<rparr>, \<lparr>geometry = (3, 0), dry_season_length = 20\<rparr>, \<lparr>geometry = (5, 0), dry_season_length = 30\<rparr>] \<noteq> []"
    by (simp add: script_config_def)
  have h2: "1 \<le> batch_size script_config"
    by (simp add: script_config_def)
  have h3: "1 \<le> MAX_NEIGHBORS script_config"
    by (simp add: script_config_def)
  have h4: "0 < MAX_DISTANCE_KM script_config"
    by (simp add: script_config_def)
  have h5: "(0::nat) < length ([(0, 0)] :: point list)"
    by (simp add: script_config_def)
  have h6: "(0::nat) < length [\<lparr>geometry = (0, 0), dry_season_length = 10\<rparr>, \<lparr>geometry = (3, 0), dry_season_length = 20\<rparr>, \<lparr>geometry = (5, 0), dry_season_length = 30\<rparr>]"
    by (simp add: script_config_def)
  have h7: "geometry ([\<lparr>geometry = (0, 0), dry_season_length = 10\<rparr>, \<lparr>geometry = (3, 0), dry_season_length = 20\<rparr>, \<lparr>geometry = (5, 0), dry_season_length = 30\<rparr>] ! 0) = ([(0, 0)] :: point list) ! 0"
    by (simp add: script_config_def)
  have h8: "MIN_NEIGHBORS script_config \<le> int (length (neighbors_of script_config [\<lparr>geometry = (0, 0), dry_season_length = 10\<rparr>, \<lparr>geometry = (3, 0), dry_season_length = 20\<rparr>, \<lparr>geometry = (5, 0), dry_season_length = 30\<rparr>] (([(0, 0)] :: point list) ! 0)))"
    by (simp only: nb) (simp add: script_config_def)
  have h9: "1 \<le> POWER script_config"
    by (simp add: script_config_def)
  have h10: "POWER script_config \<le> 25"
    by (simp add: script_config_def)
  have c: "(\<exists>res cnt i0. interpolate script_config [\<lparr>geometry = (0, 0), dry_season_length = 10\<rparr>, \<lparr>geometry = (3, 0), dry_season_length = 20\<rparr>, \<lparr>geometry = (5, 0), dry_season_length = 30\<rparr>] ([(0, 0)] :: point list) = Inr (res, cnt)
     \<and> (let nb = neighbors_of script_config [\<lparr>geometry = (0, 0), dry_season_length = 10\<rparr>, \<lparr>geometry = (3, 0), dry_season_length = 20\<rparr>, \<lparr>geometry = (5, 0), dry_season_length = 30\<rparr>] (([(0, 0)] :: point list) ! 0)
        in (0, i0) \<in> set nb \<and> i0 < length [\<lparr>geometry = (0, 0), dry_season_length = 10\<rparr>, \<lparr>geometry = (3, 0), dry_season_length = 20\<rparr>, \<lparr>geometry = (5, 0), dry_season_length = 30\<rparr>]
           \<and> geometry ([\<lparr>geometry = (0, 0), dry_season_length = 10\<rparr>, \<lparr>geometry = (3, 0), dry_season_length = 20\<rparr>, \<lparr>geometry = (5, 0), dry_season_length = 30\<rparr>] ! i0) = ([(0, 0)] :: point list) ! 0
           \<and> cnt ! 0 = int (length nb)
           \<and> (\<forall>(d, i) \<in> set nb. 0 < (d + eps) powi POWER script_config)
           \<and> 0 < (\<Sum>(d, i)\<leftarrow>nb. 1 / (d + eps) powi POWER script_config)
           \<and> (\<forall>(d, i) \<in> set nb. (eps / (d + eps)) powi POWER script_config \<le> eps / (d + eps))
           \<and> \<bar>res ! 0 - dry_season_length ([\<lparr>geometry = (0, 0), dry_season_length = 10\<rparr>, \<lparr>geometry = (3, 0), dry_season_length = 20\<rparr>, \<lparr>geometry = (5, 0), dry_season_length = 30\<rparr>] ! i0)\<bar>
               \<le> (\<Sum>(d, i)\<leftarrow>nb. (eps / (d + eps)) powi POWER script_config
                     * \<bar>dry_season_length ([\<lparr>geometry = (0, 0), dry_season_length = 10\<rparr>, \<lparr>geometry = (3, 0), dry_season_length = 20\<rparr>, \<lparr>geometry = (5, 0), dry_season_length = 30\<rparr>] ! i) - dry_season_length ([\<lparr>geometry = (0, 0), dry_season_length = 10\<rparr>, \<lparr>geometry = (3, 0), dry_season_length = 20\<rparr>, \<lparr>geometry = (5, 0), dry_season_length = 30\<rparr>] ! i0)\<bar>)))"
    by (rule coincident_point_estimate [OF h1 h2 h3 h4 h5 h6 h7 h8 h9 h10])
  show ?thesis using h1 h2 h3 h4 h5 h6 h7 h8 h9 h10 c by blast
qed

text \<open>
  C8 as stated fails: with the constants of the script a grid point at the position of a
  station that has only two stations in range takes the fallback and gets the mean of all
  stations, 15, with the count 0, not the value 10 of its station.
\<close>

theorem coincident_point_falls_back:
  "interpolate script_config
     [\<lparr>geometry = (0, 0), dry_season_length = 10\<rparr>,
      \<lparr>geometry = (3, 0), dry_season_length = 20\<rparr>] [(0, 0)] = Inr ([15], [0])"
proof -
  let ?gdf = "[\<lparr>geometry = (0, 0), dry_season_length = 10\<rparr>,
               \<lparr>geometry = (3, 0), dry_season_length = (20::real)\<rparr>]"
  have nb: "neighbors_of script_config ?gdf (0, 0) = [(0, 0), (3, 1)]"
    by (simp add: neighbors_of_take candidates_def euclid_horizontal script_config_def)
  have p: "point_result script_config ?gdf (0, 0) = (15, 0)"
    by (simp add: point_result_def Let_def nb mean_def) (simp add: script_config_def)
  show ?thesis
    using interpolate_ok [of ?gdf script_config "[(0, 0)]"] p
    by (simp add: script_config_def)
qed


end
